theory Spec2Isabelle
  imports Complex_Main
begin

section \<open>Data model\<close>

text \<open>
  Two scripts are embedded: \<^verbatim>\<open>banks_project.py\<close> (the banks variant) and
  \<^verbatim>\<open>etl_project_gdp.py\<close> (the GDP variant). Both work on pandas DataFrames.

  A Python \<^verbatim>\<open>str\<close> taken from the scraped page is a list of Unicode code points, so
  that the em-dash U+2014 is one character as it is for the regular expression of the
  source. Column labels, log messages and exception messages are literals of the
  source and stay Isabelle strings.

  A cell is text, a number or the missing value (pandas' NaN). Numbers are the doubles
  of pandas read as reals: rounding error and the infinities are not modelled.
\<close>

type_synonym pystr = "nat list"

definition py :: "string \<Rightarrow> pystr" where
  "py s = map of_char s"

definition em_dash :: pystr where
  "em_dash = [8212]"

datatype cell = Str pystr | Num real | NaN

record dataframe =
  columns :: "string list"
  rows :: "cell list list"

text \<open>
  The frames the scripts build have distinct column labels and rows as wide as the
  header. \<open>wf_frame\<close> states it where a theorem needs it.
\<close>

definition wf_frame :: "dataframe \<Rightarrow> bool" where
  "wf_frame df = (distinct (columns df) \<and> list_all (\<lambda>r. length r = length (columns df)) (rows df))"

datatype exc = Exception | IndexError | KeyError | ValueError | TypeError
  | AttributeError | RequestException | OSError | DatabaseError

text \<open>An exception is its class and its message (\<^verbatim>\<open>str(e)\<close>).\<close>

type_synonym error = "exc \<times> string"

definition err_bind :: "error + 'a \<Rightarrow> ('a \<Rightarrow> error + 'b) \<Rightarrow> error + 'b" where
  "err_bind m f = (case m of Inl e \<Rightarrow> Inl e | Inr x \<Rightarrow> f x)"

section \<open>DataFrame operations used by the scripts\<close>

fun index_of :: "'a \<Rightarrow> 'a list \<Rightarrow> nat option" where
  "index_of x [] = None"
| "index_of x (y # ys) = (if x = y then Some 0 else map_option Suc (index_of x ys))"

text \<open>\<^verbatim>\<open>df.iloc[:, idx]\<close>: a new frame of the columns at the positions \<open>idx\<close>;
  IndexError when a position is out of bounds.\<close>

definition iloc_cols :: "nat list \<Rightarrow> dataframe \<Rightarrow> error + dataframe" where
  "iloc_cols idx df =
     (if list_ex (\<lambda>i. length (columns df) \<le> i) idx
      then Inl (IndexError, ''positional indexers are out-of-bounds'')
      else Inr \<lparr>columns = map (\<lambda>i. columns df ! i) idx,
                rows = map (\<lambda>r. map (\<lambda>i. r ! i) idx) (rows df)\<rparr>)"

text \<open>\<^verbatim>\<open>df.columns = names\<close>: ValueError on a length mismatch.\<close>

definition set_columns :: "string list \<Rightarrow> dataframe \<Rightarrow> error + dataframe" where
  "set_columns names df =
     (if length names \<noteq> length (columns df)
      then Inl (ValueError, ''Length mismatch'')
      else Inr (df\<lparr>columns := names\<rparr>))"

text \<open>\<^verbatim>\<open>df[name]\<close>: the column as a list of cells; KeyError when there is none.\<close>

definition get_column :: "string \<Rightarrow> dataframe \<Rightarrow> error + cell list" where
  "get_column name df =
     (case index_of name (columns df) of
        None \<Rightarrow> Inl (KeyError, name)
      | Some i \<Rightarrow> Inr (map (\<lambda>r. r ! i) (rows df)))"

text \<open>\<^verbatim>\<open>df[name] = series\<close>, for a series computed from \<open>df\<close> itself (so it has one
  value per row): an existing column is overwritten in place, a new one is appended
  at the right.\<close>

definition set_column :: "string \<Rightarrow> cell list \<Rightarrow> dataframe \<Rightarrow> dataframe" where
  "set_column name vals df =
     (case index_of name (columns df) of
        Some i \<Rightarrow> df\<lparr>rows := map (\<lambda>(r, v). r[i := v]) (zip (rows df) vals)\<rparr>
      | None \<Rightarrow> df\<lparr>columns := columns df @ [name],
                    rows := map (\<lambda>(r, v). r @ [v]) (zip (rows df) vals)\<rparr>)"

text \<open>\<^verbatim>\<open>df[keep]\<close> with a boolean series: the rows whose mask value is true, in order.\<close>

definition select_rows :: "bool list \<Rightarrow> dataframe \<Rightarrow> dataframe" where
  "select_rows keep df = df\<lparr>rows := map fst (filter snd (zip (rows df) keep))\<rparr>"

text \<open>\<^verbatim>\<open>df.dropna(subset=[name])\<close>: the rows whose cell in that column is not missing.\<close>

definition dropna :: "string \<Rightarrow> dataframe \<Rightarrow> error + dataframe" where
  "dropna name df =
     (case index_of name (columns df) of
        None \<Rightarrow> Inl (KeyError, name)
      | Some i \<Rightarrow> Inr (df\<lparr>rows := filter (\<lambda>r. r ! i \<noteq> NaN) (rows df)\<rparr>))"

text \<open>\<^verbatim>\<open>df[[n1, n2, ...]]\<close>: the named columns, in the order asked.\<close>

fun those_idx :: "string list \<Rightarrow> string list \<Rightarrow> error + nat list" where
  "those_idx cols [] = Inr []"
| "those_idx cols (n # ns) =
     (case index_of n cols of
        None \<Rightarrow> Inl (KeyError, n)
      | Some i \<Rightarrow> err_bind (those_idx cols ns) (\<lambda>is. Inr (i # is)))"

definition select_columns :: "string list \<Rightarrow> dataframe \<Rightarrow> error + dataframe" where
  "select_columns names df =
     err_bind (those_idx (columns df) names) (\<lambda>idx.
       Inr \<lparr>columns = names, rows = map (\<lambda>r. map (\<lambda>i. r ! i) idx) (rows df)\<rparr>)"

subsection \<open>Text and numbers\<close>

text \<open>\<^verbatim>\<open>str.lower\<close> on the ASCII letters; the excluded values of the source are
  lower-case ASCII text or the em-dash, which has no case.\<close>

definition lower_char :: "nat \<Rightarrow> nat" where
  "lower_char c = (if 65 \<le> c \<and> c \<le> 90 then c + 32 else c)"

definition lower :: "pystr \<Rightarrow> pystr" where
  "lower s = map lower_char s"

fun is_Str :: "cell \<Rightarrow> bool" where
  "is_Str (Str s) = True"
| "is_Str c = False"

text \<open>\<^verbatim>\<open>series.str.lower()\<close>. The accessor raises AttributeError on a column that
  is not text: as the HTML reader types columns, that is a non-empty column without
  any text cell. A cell that is not text gives the missing value.\<close>

definition str_lower :: "cell list \<Rightarrow> error + cell list" where
  "str_lower col =
     (if col \<noteq> [] \<and> \<not> list_ex is_Str col
      then Inl (AttributeError, ''Can only use .str accessor with string values!'')
      else Inr (map (\<lambda>c. case c of Str s \<Rightarrow> Str (lower s) | _ \<Rightarrow> NaN) col))"

text \<open>\<^verbatim>\<open>series.isin(values)\<close>; the missing value is in no list of texts.\<close>

definition isin :: "cell list \<Rightarrow> pystr list \<Rightarrow> bool list" where
  "isin col vals = map (\<lambda>c. case c of Str s \<Rightarrow> s \<in> set vals | _ \<Rightarrow> False) col"

text \<open>
  \<^verbatim>\<open>re.sub(pattern, '', s)\<close> for the pattern of the source: a bracketed footnote
  \<^verbatim>\<open>\[.*?\]\<close>, or a comma, or the dash U+2014.
  \<open>skip_bracket\<close> is the lazy \<^verbatim>\<open>.*?\]\<close> after an opening bracket: it stops at the
  first closing bracket, and fails at a newline, which the dot does not match.
\<close>

fun skip_bracket :: "pystr \<Rightarrow> pystr option" where
  "skip_bracket [] = None"
| "skip_bracket (c # cs) =
     (if c = 93 then Some cs else if c = 10 then None else skip_bracket cs)"

function strip_noise :: "pystr \<Rightarrow> pystr" where
  "strip_noise [] = []"
| "strip_noise (c # cs) =
     (if c = 91 then
        (case skip_bracket cs of
           Some r \<Rightarrow> strip_noise r
         | None \<Rightarrow> c # strip_noise cs)
      else if c = 44 \<or> c = 8212 then strip_noise cs
      else c # strip_noise cs)"
  by pat_completeness auto
termination
proof (relation "measure length")
  show "wf (measure length)" by simp
next
  fix c cs r
  assume "skip_bracket cs = Some r"
  then have "length r < Suc (length cs)"
    by (induction cs) (auto split: if_splits)
  then show "(r, c # cs) \<in> measure length" by simp
qed simp_all

text \<open>\<^verbatim>\<open>series.replace(to_replace=pattern, value='', regex=True)\<close>: only text cells
  are rewritten.\<close>

fun strip_cell :: "cell \<Rightarrow> cell" where
  "strip_cell (Str s) = Str (strip_noise s)"
| "strip_cell c = c"

definition replace_noise :: "cell list \<Rightarrow> cell list" where
  "replace_noise col = map strip_cell col"

text \<open>
  \<^verbatim>\<open>pd.to_numeric(series, errors='coerce')\<close>. The library's reading of a text as a
  double is the parameter \<open>parse\<close> (\<open>None\<close> when the text is no number); the empty
  text is missing before any parsing. Nothing is raised for a cell.
\<close>

definition to_numeric_cell :: "(pystr \<Rightarrow> real option) \<Rightarrow> cell \<Rightarrow> cell" where
  "to_numeric_cell parse c =
     (case c of
        Num x \<Rightarrow> Num x
      | NaN \<Rightarrow> NaN
      | Str s \<Rightarrow> (if s = [] then NaN
                  else (case parse s of Some x \<Rightarrow> Num x | None \<Rightarrow> NaN)))"

definition to_numeric :: "(pystr \<Rightarrow> real option) \<Rightarrow> cell list \<Rightarrow> cell list" where
  "to_numeric parse col = map (to_numeric_cell parse) col"

text \<open>Arithmetic of a column with a number: text cells raise TypeError, the missing
  value stays missing.\<close>

fun arith_cell :: "(real \<Rightarrow> real) \<Rightarrow> cell \<Rightarrow> cell" where
  "arith_cell f (Num x) = Num (f x)"
| "arith_cell f c = c"

fun arith_col :: "(real \<Rightarrow> real) \<Rightarrow> cell list \<Rightarrow> error + cell list" where
  "arith_col f [] = Inr []"
| "arith_col f (Str s # cs) = Inl (TypeError, ''unsupported operand type(s)'')"
| "arith_col f (c # cs) = err_bind (arith_col f cs) (\<lambda>r. Inr (arith_cell f c # r))"

text \<open>\<^verbatim>\<open>series.round(n)\<close> is numpy's: scale, round half to even, scale back.\<close>

definition rint :: "real \<Rightarrow> real" where
  "rint x =
     (let f = \<lfloor>x\<rfloor>; d = x - of_int f
      in if d < 1 / 2 then of_int f
         else if 1 / 2 < d then of_int (f + 1)
         else if even f then of_int f else of_int (f + 1))"

definition round_to :: "nat \<Rightarrow> real \<Rightarrow> real" where
  "round_to n x = rint (x * 10 ^ n) / 10 ^ n"

fun round_cell :: "nat \<Rightarrow> cell \<Rightarrow> cell" where
  "round_cell n (Num x) = Num (round_to n x)"
| "round_cell n c = c"

definition round_col :: "nat \<Rightarrow> cell list \<Rightarrow> cell list" where
  "round_col n col = map (round_cell n) col"

section \<open>The world the scripts run in\<close>

text \<open>
  A parsed page is the list of its elements in document order (the order in which
  \<^verbatim>\<open>find\<close>, \<^verbatim>\<open>find_all\<close> and \<^verbatim>\<open>find_next\<close> visit them). An element carries its
  tag name, its \<^verbatim>\<open>id\<close>, its classes, the text of its first caption when it has one,
  and what \<^verbatim>\<open>pd.read_html(StringIO(str(element)))[0]\<close> gives for it: a frame, or the
  error the reader raises.
\<close>

record element =
  tag :: string
  elem_id :: "pystr option"
  classes :: "pystr list"
  caption :: "pystr option"
  read_html :: "error + dataframe"

record response =
  status_code :: nat
  soup :: "element list"

type_synonym database = "string \<rightharpoonup> dataframe"

text \<open>
  The collaborators outside the scripts: the network, the float reader of pandas, the
  CSV reader, the faults of the file system and of SQLite, the SQL engine that answers
  a literal query on the tables of a database, and the printers of frames and rows.
\<close>

record env =
  http_get :: "string \<Rightarrow> error + response"
  parse_float :: "pystr \<Rightarrow> real option"
  read_csv :: "string \<Rightarrow> error + dataframe"
  to_csv_error :: "string \<Rightarrow> error option"
  connect_error :: "string \<Rightarrow> error option"
  run_sql :: "string \<Rightarrow> database \<Rightarrow> error + dataframe"
  show_frame :: "dataframe \<Rightarrow> string"
  show_row :: "cell list \<Rightarrow> string"

text \<open>
  The state a run changes: the lines appended to the log file (without their
  timestamps), the lines printed, the CSV files written (as the frames they hold), the
  tables of each database file, and the frames that are shared by reference.
\<close>

record world =
  logfile :: "string list"
  stdout :: "string list"
  files :: "string \<rightharpoonup> dataframe"
  dbs :: "string \<Rightarrow> database"
  heap :: "dataframe list"

text \<open>A statement runs in a world and ends with a value or a raised exception.\<close>

type_synonym 'a prog = "world \<Rightarrow> (error + 'a) \<times> world"

definition ret :: "'a \<Rightarrow> 'a prog" where
  "ret x w = (Inr x, w)"

definition raise :: "error \<Rightarrow> 'a prog" where
  "raise e w = (Inl e, w)"

definition lift :: "error + 'a \<Rightarrow> 'a prog" where
  "lift m w = (m, w)"

definition seq :: "'a prog \<Rightarrow> ('a \<Rightarrow> 'b prog) \<Rightarrow> 'b prog" where
  "seq m f w = (case m w of (Inl e, w') \<Rightarrow> (Inl e, w') | (Inr x, w') \<Rightarrow> f x w')"

subsection \<open>Page queries\<close>

text \<open>\<^verbatim>\<open>needle in text\<close>: a case-sensitive search for a contiguous run.\<close>

fun starts_with :: "'a list \<Rightarrow> 'a list \<Rightarrow> bool" where
  "starts_with [] ys = True"
| "starts_with (x # xs) [] = False"
| "starts_with (x # xs) (y # ys) = (x = y \<and> starts_with xs ys)"

fun contains :: "'a list \<Rightarrow> 'a list \<Rightarrow> bool" where
  "contains needle [] = (needle = [])"
| "contains needle (y # ys) = (starts_with needle (y # ys) \<or> contains needle ys)"

definition is_wikitable :: "element \<Rightarrow> bool" where
  "is_wikitable e = (tag e = ''table'' \<and> py ''wikitable'' \<in> set (classes e))"

text \<open>\<^verbatim>\<open>soup.find_all("table", {"class": "wikitable"})\<close>\<close>

definition find_all_wikitable :: "element list \<Rightarrow> element list" where
  "find_all_wikitable doc = filter is_wikitable doc"

text \<open>\<^verbatim>\<open>soup.find("h2", {"id": ident})\<close>, as the elements from the first such heading
  on: the heading and what follows it in document order.\<close>

definition is_heading :: "pystr \<Rightarrow> element \<Rightarrow> bool" where
  "is_heading ident e = (tag e = ''h2'' \<and> elem_id e = Some ident)"

definition find_h2 :: "pystr \<Rightarrow> element list \<Rightarrow> element list option" where
  "find_h2 ident doc =
     (case dropWhile (\<lambda>e. \<not> is_heading ident e) doc of
        [] \<Rightarrow> None
      | h # following \<Rightarrow> Some (h # following))"

text \<open>\<^verbatim>\<open>h2_tag.find_next("table", class_="wikitable")\<close>: the first such table among
  the elements after the heading.\<close>

definition find_next_wikitable :: "element list \<Rightarrow> element option" where
  "find_next_wikitable from_h2 = find is_wikitable (tl from_h2)"

subsection \<open>Sinks\<close>

text \<open>\<^verbatim>\<open>df.to_csv(path, index=False)\<close>: the file is overwritten with the frame, or the
  file system's error is raised.\<close>

definition to_csv :: "env \<Rightarrow> dataframe \<Rightarrow> string \<Rightarrow> unit prog" where
  "to_csv env df path w =
     (case to_csv_error env path of
        Some e \<Rightarrow> (Inl e, w)
      | None \<Rightarrow> (Inr (), w\<lparr>files := (files w)(path \<mapsto> df)\<rparr>))"

text \<open>\<^verbatim>\<open>sqlite3.connect(name)\<close>: a connection is the name of its database file.\<close>

definition connect :: "env \<Rightarrow> string \<Rightarrow> string prog" where
  "connect env name = (case connect_error env name of Some e \<Rightarrow> raise e | None \<Rightarrow> ret name)"

definition put_table :: "string \<Rightarrow> string \<Rightarrow> dataframe option \<Rightarrow> world \<Rightarrow> world" where
  "put_table conn t v w = w\<lparr>dbs := (dbs w)(conn := (dbs w conn)(t := v))\<rparr>"

text \<open>\<^verbatim>\<open>DROP TABLE IF EXISTS t\<close>\<close>

definition drop_table_if_exists :: "string \<Rightarrow> string \<Rightarrow> unit prog" where
  "drop_table_if_exists conn t w = (Inr (), put_table conn t None w)"

text \<open>\<^verbatim>\<open>CREATE TABLE t (c1 ..., c2 ...)\<close>: an error when the table exists.\<close>

definition create_table :: "string \<Rightarrow> string \<Rightarrow> string list \<Rightarrow> unit prog" where
  "create_table conn t cols w =
     (case dbs w conn t of
        Some old \<Rightarrow> (Inl (DatabaseError, ''table already exists''), w)
      | None \<Rightarrow> (Inr (), put_table conn t (Some \<lparr>columns = cols, rows = []\<rparr>) w))"

text \<open>
  \<^verbatim>\<open>df.to_sql(t, conn, if_exists='replace', index=False)\<close>: the table is dropped and
  created again from the frame's columns, then the frame's rows are inserted.
\<close>

definition to_sql_replace :: "dataframe \<Rightarrow> string \<Rightarrow> string \<Rightarrow> unit prog" where
  "to_sql_replace df t conn w = (Inr (), put_table conn t (Some df) w)"

text \<open>
  \<^verbatim>\<open>df.to_sql(t, conn, if_exists='append', index=False)\<close>: the table is created from
  the frame when there is none; otherwise each row is inserted by column name, a
  column the frame lacks being NULL, and a column the table lacks an error.
\<close>

definition insert_row :: "string list \<Rightarrow> string list \<Rightarrow> cell list \<Rightarrow> cell list" where
  "insert_row table_cols df_cols r =
     map (\<lambda>c. case index_of c df_cols of Some i \<Rightarrow> r ! i | None \<Rightarrow> NaN) table_cols"

definition to_sql_append :: "dataframe \<Rightarrow> string \<Rightarrow> string \<Rightarrow> unit prog" where
  "to_sql_append df t conn w =
     (case dbs w conn t of
        None \<Rightarrow> (Inr (), put_table conn t (Some df) w)
      | Some old \<Rightarrow>
          if list_all (\<lambda>c. c \<in> set (columns old)) (columns df)
          then (Inr (), put_table conn t
                  (Some (old\<lparr>rows := rows old @ map (insert_row (columns old) (columns df)) (rows df)\<rparr>)) w)
          else (Inl (DatabaseError, ''table has no such column''), w))"

text \<open>\<^verbatim>\<open>conn.close()\<close>\<close>

definition close :: "string \<Rightarrow> unit prog" where
  "close conn = ret ()"

section \<open>The GDP variant: etl_project_gdp.py\<close>

text \<open>\<^verbatim>\<open>log_step\<close> prints the message and appends it to the log file.\<close>

definition log_step :: "string \<Rightarrow> unit prog" where
  "log_step message w =
     (Inr (), w\<lparr>stdout := stdout w @ [message], logfile := logfile w @ [message]\<rparr>)"

definition gdp_caption :: pystr where
  "gdp_caption = py ''GDP (USD million) by country''"

text \<open>The loop of \<^verbatim>\<open>extract_data\<close> over the tables found.\<close>

definition has_gdp_caption :: "element \<Rightarrow> bool" where
  "has_gdp_caption table =
     (case caption table of None \<Rightarrow> False | Some t \<Rightarrow> contains gdp_caption t)"

fun caption_loop :: "element list \<Rightarrow> dataframe prog" where
  "caption_loop [] = raise (Exception, ''Could not find the correct GDP table by caption.'')"
| "caption_loop (table # rest) =
     (if has_gdp_caption table
      then seq (log_step ''Found the correct GDP table using caption.'')
             (\<lambda>_. lift (read_html table))
      else caption_loop rest)"

definition extract_data :: "env \<Rightarrow> string \<Rightarrow> dataframe prog" where
  "extract_data env url =
     seq (log_step ''Starting data extraction...'') (\<lambda>_.
     seq (lift (http_get env url)) (\<lambda>response.
       if status_code response \<noteq> 200
       then raise (Exception, ''Failed to fetch webpage.'')
       else caption_loop (find_all_wikitable (soup response))))"

text \<open>The statements of \<^verbatim>\<open>transform_data\<close> between its two log lines, in the order
  of the source; none of them touches the world.\<close>

definition transform_frame :: "(pystr \<Rightarrow> real option) \<Rightarrow> dataframe \<Rightarrow> error + dataframe" where
  "transform_frame parse df0 =
     err_bind (iloc_cols [0, 2] df0) (\<lambda>df1.
     err_bind (set_columns [''Country'', ''GDP_USD_million''] df1) (\<lambda>df2.
     err_bind (get_column ''Country'' df2) (\<lambda>country.
     err_bind (str_lower country) (\<lambda>lowered.
     let df3 = select_rows (map Not (isin lowered [py ''world'', em_dash])) df2 in
     err_bind (get_column ''GDP_USD_million'' df3) (\<lambda>gdp3.
     let df4 = set_column ''GDP_USD_million'' (replace_noise gdp3) df3 in
     err_bind (get_column ''GDP_USD_million'' df4) (\<lambda>gdp4.
     let df5 = set_column ''GDP_USD_million'' (to_numeric parse gdp4) df4 in
     err_bind (dropna ''GDP_USD_million'' df5) (\<lambda>df6.
     err_bind (get_column ''GDP_USD_million'' df6) (\<lambda>gdp6.
     err_bind (arith_col (\<lambda>x. x / 1000) gdp6) (\<lambda>quot.
     let df7 = set_column ''GDP_USD_billion'' (round_col 2 quot) df6 in
     select_columns [''Country'', ''GDP_USD_billion''] df7)))))))))"

text \<open>\<^verbatim>\<open>df.head()\<close>: the first five rows.\<close>

definition head5 :: "dataframe \<Rightarrow> dataframe" where
  "head5 df = df\<lparr>rows := take 5 (rows df)\<rparr>"

definition transform_data :: "env \<Rightarrow> dataframe \<Rightarrow> dataframe prog" where
  "transform_data env df =
     seq (log_step ''Starting data transformation...'') (\<lambda>_.
     seq (lift (transform_frame (parse_float env) df)) (\<lambda>df.
     seq (log_step (''Transformation complete. Sample data:'' @ [CHR 0x0A] @ show_frame env (head5 df)))
       (\<lambda>_. ret df)))"

definition load_to_csv_gdp :: "env \<Rightarrow> dataframe \<Rightarrow> string \<Rightarrow> unit prog" where
  "load_to_csv_gdp env df filename =
     seq (log_step (''Saving data to CSV file: '' @ filename)) (\<lambda>_. to_csv env df filename)"

definition load_to_database :: "env \<Rightarrow> dataframe \<Rightarrow> string \<Rightarrow> string prog" where
  "load_to_database env df db_name =
     seq (log_step (''Saving data to database: '' @ db_name)) (\<lambda>_.
     seq (connect env db_name) (\<lambda>conn.
     seq (drop_table_if_exists conn ''Countries_by_GDP'') (\<lambda>_.
     seq (create_table conn ''Countries_by_GDP'' [''Country'', ''GDP_USD_billion'']) (\<lambda>_.
     seq (to_sql_append df ''Countries_by_GDP'' conn) (\<lambda>_.
     seq (log_step ''Data loaded into database.'') (\<lambda>_.
     ret conn))))))"

function show_nat :: "nat \<Rightarrow> string" where
  "show_nat n =
     (if n < 10 then [char_of (48 + n)]
      else show_nat (n div 10) @ [char_of (48 + n mod 10)])"
  by pat_completeness auto
termination
  by (relation "measure id") auto

fun join :: "string \<Rightarrow> string list \<Rightarrow> string" where
  "join sep [] = []"
| "join sep [x] = x"
| "join sep (x # y # ys) = x @ sep @ join sep (y # ys)"

definition query_database :: "env \<Rightarrow> string \<Rightarrow> unit prog" where
  "query_database env conn =
     seq (log_step ''Running query for countries with GDP > 100 billion USD...'') (\<lambda>_.
     seq (\<lambda>w. lift (run_sql env ''SELECT * FROM Countries_by_GDP WHERE GDP_USD_billion > 100''
                      (dbs w conn)) w) (\<lambda>results.
     log_step (''Query returned '' @ show_nat (length (rows results)) @ '' countries:''
               @ [CHR 0x0A] @ join [CHR 0x0A] (map (show_row env) (rows results)))))"

definition gdp_url :: string where
  "gdp_url = ''https://web.archive.org/web/20230902185326/https://en.wikipedia.org/wiki/List_of_countries_by_GDP_%28nominal%29''"

text \<open>\<^verbatim>\<open>try: ... except Exception as e: handler\<close>\<close>

definition try_except :: "'a prog \<Rightarrow> (error \<Rightarrow> 'a prog) \<Rightarrow> 'a prog" where
  "try_except body handler w =
     (case body w of (Inl e, w') \<Rightarrow> handler e w' | (Inr x, w') \<Rightarrow> (Inr x, w'))"

definition main_try :: "env \<Rightarrow> unit prog" where
  "main_try env =
     seq (extract_data env gdp_url) (\<lambda>df_raw.
     seq (transform_data env df_raw) (\<lambda>df_transformed.
     seq (load_to_csv_gdp env df_transformed ''Countries_by_GDP.csv'') (\<lambda>_.
     seq (load_to_database env df_transformed ''World_Economies.db'') (\<lambda>conn.
     seq (query_database env conn) (\<lambda>_.
     seq (close conn) (\<lambda>_.
     log_step ''ETL process completed successfully.''))))))"

definition main :: "env \<Rightarrow> unit prog" where
  "main env =
     seq (log_step ''ETL process started.'') (\<lambda>_.
     try_except (main_try env) (\<lambda>e. log_step (''ETL process failed: '' @ snd e)))"

section \<open>The banks variant: banks_project.py\<close>

text \<open>\<^verbatim>\<open>log_progress\<close> appends the message to the log file.\<close>

definition log_progress :: "string \<Rightarrow> unit prog" where
  "log_progress message w = (Inr (), w\<lparr>logfile := logfile w @ [message]\<rparr>)"

definition print_line :: "string \<Rightarrow> unit prog" where
  "print_line s w = (Inr (), w\<lparr>stdout := stdout w @ [s]\<rparr>)"

text \<open>
  In this script a frame is passed to \<^verbatim>\<open>transform\<close> and changed there, so the frames
  that a name of the script keeps are objects in the heap, and a variable holds the
  position of its frame. The frames built and dropped inside one statement are values.
\<close>

definition new_frame :: "dataframe \<Rightarrow> nat prog" where
  "new_frame df w = (Inr (length (heap w)), w\<lparr>heap := heap w @ [df]\<rparr>)"

definition frame_at :: "nat \<Rightarrow> dataframe prog" where
  "frame_at r w = (Inr (heap w ! r), w)"

text \<open>\<^verbatim>\<open>df[name]\<close> and \<^verbatim>\<open>df[name] = series\<close> on the object.\<close>

definition frame_col :: "nat \<Rightarrow> string \<Rightarrow> cell list prog" where
  "frame_col r name w = (get_column name (heap w ! r), w)"

definition assign_column :: "nat \<Rightarrow> string \<Rightarrow> cell list \<Rightarrow> unit prog" where
  "assign_column r name vals w =
     (Inr (), w\<lparr>heap := (heap w)[r := set_column name vals (heap w ! r)]\<rparr>)"

definition quoted :: "string \<Rightarrow> string" where
  "quoted s = [CHR 0x27] @ s @ [CHR 0x27]"

text \<open>Lines 30 to 38 of \<^verbatim>\<open>extract\<close>: the heading, then the next table after it.\<close>

definition locate_table :: "element list \<Rightarrow> error + element" where
  "locate_table doc =
     (case find_h2 (py ''By_market_capitalization'') doc of
        None \<Rightarrow> Inl (Exception,
                  ''Heading with ID '' @ quoted ''By_market_capitalization'' @ '' not found'')
      | Some h2_tag \<Rightarrow>
          (case find_next_wikitable h2_tag of
             None \<Rightarrow> Inl (Exception, ''Target table not found after heading'')
           | Some next_table \<Rightarrow> Inr next_table))"

text \<open>The function \<^verbatim>\<open>extract\<close> of the script; its name is a keyword here.\<close>

definition extract_banks :: "env \<Rightarrow> string \<Rightarrow> string list \<Rightarrow> nat prog" where
  "extract_banks env url table_attribs =
     seq (lift (http_get env url)) (\<lambda>response.
     seq (lift (locate_table (soup response))) (\<lambda>next_table.
     seq (lift (read_html next_table)) (\<lambda>df.
     seq (lift (iloc_cols [0, 2] df)) (\<lambda>df.
     seq (lift (set_columns table_attribs df)) (\<lambda>df.
     seq (lift (dropna ''MC_USD_Billion'' df)) (\<lambda>df.
     seq (new_frame df) (\<lambda>df.
     seq (frame_col df ''MC_USD_Billion'') (\<lambda>col.
     seq (assign_column df ''MC_USD_Billion'' (to_numeric (parse_float env) col)) (\<lambda>_.
     seq (log_progress ''Data extraction complete. Initiating Transformation process'') (\<lambda>_.
     ret df))))))))))"

text \<open>\<^verbatim>\<open>dict(zip(keys, values))\<close>: of two pairs with one key the later wins.\<close>

definition dict_zip :: "cell list \<Rightarrow> cell list \<Rightarrow> (cell \<times> cell) list" where
  "dict_zip ks vs = rev (zip ks vs)"

definition dict_get :: "(cell \<times> cell) list \<Rightarrow> string \<Rightarrow> error + cell" where
  "dict_get d k =
     (case map_of d (Str (py k)) of None \<Rightarrow> Inl (KeyError, quoted k) | Some v \<Rightarrow> Inr v)"

text \<open>\<^verbatim>\<open>series * rate\<close>\<close>

fun times_col :: "cell list \<Rightarrow> cell \<Rightarrow> error + cell list" where
  "times_col col (Num r) = arith_col (\<lambda>x. x * r) col"
| "times_col col NaN = err_bind (arith_col (\<lambda>x. x) col) (\<lambda>c. Inr (map (\<lambda>_. NaN) c))"
| "times_col col (Str s) = Inl (TypeError, ''unsupported operand type(s)'')"

text \<open>One of the three assignments of \<^verbatim>\<open>transform\<close>:
  \<^verbatim>\<open>df[name] = (df['MC_USD_Billion'] * rates[currency]).round(2)\<close>\<close>

definition derive_column :: "nat \<Rightarrow> (cell \<times> cell) list \<Rightarrow> string \<Rightarrow> string \<Rightarrow> unit prog" where
  "derive_column df rates name currency =
     seq (frame_col df ''MC_USD_Billion'') (\<lambda>usd.
     seq (lift (dict_get rates currency)) (\<lambda>rate.
     seq (lift (times_col usd rate)) (\<lambda>prod.
     assign_column df name (round_col 2 prod))))"

text \<open>Lines 58 and 59 of \<^verbatim>\<open>transform\<close>: the rates read from the CSV file.\<close>

definition read_rates :: "env \<Rightarrow> string \<Rightarrow> error + (cell \<times> cell) list" where
  "read_rates env csv_path =
     err_bind (read_csv env csv_path) (\<lambda>rates_df.
     err_bind (get_column ''Currency'' rates_df) (\<lambda>currency.
     err_bind (get_column ''Rate'' rates_df) (\<lambda>rate.
     Inr (dict_zip currency rate))))"

definition transform :: "env \<Rightarrow> nat \<Rightarrow> string \<Rightarrow> nat prog" where
  "transform env df csv_path =
     seq (lift (read_rates env csv_path)) (\<lambda>rates.
     seq (derive_column df rates ''MC_GBP_Billion'' ''GBP'') (\<lambda>_.
     seq (derive_column df rates ''MC_EUR_Billion'' ''EUR'') (\<lambda>_.
     seq (derive_column df rates ''MC_INR_Billion'' ''INR'') (\<lambda>_.
     seq (log_progress ''Data transformation complete. Initiating Loading process'') (\<lambda>_.
     ret df)))))"

definition load_to_csv :: "env \<Rightarrow> nat \<Rightarrow> string \<Rightarrow> unit prog" where
  "load_to_csv env df output_path =
     seq (frame_at df) (\<lambda>frame.
     seq (to_csv env frame output_path) (\<lambda>_.
     log_progress ''Data saved to CSV file''))"

definition load_to_db :: "nat \<Rightarrow> string \<Rightarrow> string \<Rightarrow> unit prog" where
  "load_to_db df sql_connection table_name =
     seq (frame_at df) (\<lambda>frame.
     seq (to_sql_replace frame table_name sql_connection) (\<lambda>_.
     log_progress ''Data loaded to Database as a table, Executing queries''))"

definition run_query :: "env \<Rightarrow> string \<Rightarrow> string \<Rightarrow> unit prog" where
  "run_query env query_statement sql_connection =
     seq (print_line (''Query: '' @ query_statement)) (\<lambda>_.
     seq (\<lambda>w. lift (run_sql env query_statement (dbs w sql_connection)) w) (\<lambda>result.
     seq (print_line (show_frame env result)) (\<lambda>_.
     log_progress ''Process Complete'')))"

definition URL :: string where
  "URL = ''https://en.wikipedia.org/wiki/List_of_largest_banks''"

definition EXCHANGE_CSV :: string where
  "EXCHANGE_CSV = ''https://cf-courses-data.s3.us.cloud-object-storage.appdomain.cloud/IBMSkillsNetwork-PY0221EN-Coursera/labs/v2/exchange_rate.csv''"

definition OUTPUT_CSV :: string where
  "OUTPUT_CSV = ''./Largest_banks_data.csv''"

definition DB_NAME :: string where
  "DB_NAME = ''Banks.db''"

definition TABLE_NAME :: string where
  "TABLE_NAME = ''Largest_banks''"

definition ATTRIBUTES :: "string list" where
  "ATTRIBUTES = [''Name'', ''MC_USD_Billion'']"

text \<open>The statements at module level. An exception that leaves them ends the process.\<close>

definition banks_script :: "env \<Rightarrow> unit prog" where
  "banks_script env =
     seq (log_progress ''Preliminaries complete. Initiating ETL process'') (\<lambda>_.
     seq (extract_banks env URL ATTRIBUTES) (\<lambda>df_extracted.
     seq (frame_col df_extracted ''MC_USD_Billion'') (\<lambda>col.
     seq (assign_column df_extracted ''MC_USD_Billion'' (to_numeric (parse_float env) col)) (\<lambda>_.
     seq (transform env df_extracted EXCHANGE_CSV) (\<lambda>df_transformed.
     seq (load_to_csv env df_transformed OUTPUT_CSV) (\<lambda>_.
     seq (connect env DB_NAME) (\<lambda>conn.
     seq (log_progress ''SQL Connection initiated'') (\<lambda>_.
     seq (load_to_db df_transformed conn TABLE_NAME) (\<lambda>_.
     seq (run_query env (''SELECT * FROM '' @ TABLE_NAME) conn) (\<lambda>_.
     seq (run_query env (''SELECT AVG(MC_GBP_Billion) FROM '' @ TABLE_NAME) conn) (\<lambda>_.
     seq (run_query env (''SELECT Name FROM '' @ TABLE_NAME @ '' LIMIT 5'') conn) (\<lambda>_.
     seq (close conn) (\<lambda>_.
     log_progress ''Server Connection closed'')))))))))))))"

section \<open>Notions used in the statements\<close>

text \<open>
  What lines 71 to 85 of \<^verbatim>\<open>transform_data\<close> do to one row: the test of
  line 71 on the country cell, lines 74 to 79 on the GDP cell, line 85 on the cleaned
  cell, and the rows that lines 71 and 82 keep.
\<close>

definition excluded :: "cell \<Rightarrow> bool" where
  "excluded c = (case c of Str s \<Rightarrow> lower s \<in> set [py ''world'', em_dash] | _ \<Rightarrow> False)"

definition clean_cell :: "(pystr \<Rightarrow> real option) \<Rightarrow> cell \<Rightarrow> cell" where
  "clean_cell parse c = to_numeric_cell parse (strip_cell c)"

definition billions :: "cell \<Rightarrow> cell" where
  "billions c = round_cell 2 (arith_cell (\<lambda>x. x / 1000) c)"

definition gdp_kept :: "(pystr \<Rightarrow> real option) \<Rightarrow> cell list \<Rightarrow> bool" where
  "gdp_kept parse r = (\<not> excluded (r ! 0) \<and> clean_cell parse (r ! 2) \<noteq> NaN)"

text \<open>
  The row filter in the words of the specification, which trims the key before it is
  compared: \<^verbatim>\<open>str.strip\<close> on the ASCII white space.
\<close>

definition is_space :: "nat \<Rightarrow> bool" where
  "is_space c = (c = 32 \<or> (9 \<le> c \<and> c \<le> 13))"

definition trimmed :: "pystr \<Rightarrow> pystr" where
  "trimmed s = rev (dropWhile is_space (rev (dropWhile is_space s)))"

definition spec_excluded :: "cell \<Rightarrow> bool" where
  "spec_excluded c =
     (case c of Str s \<Rightarrow> lower (trimmed s) \<in> set [py ''world'', em_dash] | _ \<Rightarrow> False)"

text \<open>The frame a successful \<^verbatim>\<open>transform\<close> leaves at its argument: the three derived
  columns written one after the other.\<close>

definition scaled :: "real \<Rightarrow> cell list \<Rightarrow> cell list" where
  "scaled rate col = map (\<lambda>c. round_cell 2 (arith_cell (\<lambda>x. x * rate) c)) col"

section \<open>Sample inputs\<close>

text \<open>A reader of unsigned decimal literals, for the concrete runs below.\<close>

fun digits_value :: "nat \<Rightarrow> pystr \<Rightarrow> nat option" where
  "digits_value acc [] = Some acc"
| "digits_value acc (c # cs) =
     (if 48 \<le> c \<and> c \<le> 57 then digits_value (10 * acc + (c - 48)) cs else None)"

definition parse_decimal :: "pystr \<Rightarrow> real option" where
  "parse_decimal s =
     (let ip = takeWhile (\<lambda>c. c \<noteq> 46) s; fp = drop (Suc (length ip)) s
      in if ip = [] \<and> fp = [] then None
         else (case (digits_value 0 ip, digits_value 0 fp) of
                 (Some a, Some b) \<Rightarrow> Some (real a + real b / 10 ^ length fp)
               | _ \<Rightarrow> None))"

definition exchange_rates :: dataframe where
  "exchange_rates = \<lparr>columns = [''Currency'', ''Rate''],
     rows = [[Str (py ''EUR''), Num 0.93], [Str (py ''GBP''), Num 0.8],
             [Str (py ''INR''), Num 82.95]]\<rparr>"

definition no_rows :: dataframe where
  "no_rows = \<lparr>columns = [], rows = []\<rparr>"

definition sample_env :: "element list \<Rightarrow> env" where
  "sample_env doc =
     \<lparr>http_get = (\<lambda>url. Inr \<lparr>status_code = 200, soup = doc\<rparr>),
      parse_float = parse_decimal,
      read_csv = (\<lambda>path. Inr exchange_rates),
      to_csv_error = (\<lambda>path. None),
      connect_error = (\<lambda>name. None),
      run_sql = (\<lambda>query db. Inr no_rows),
      show_frame = (\<lambda>df. []),
      show_row = (\<lambda>r. [])\<rparr>"

definition offline_env :: env where
  "offline_env = (sample_env [])\<lparr>http_get := (\<lambda>url. Inl (RequestException, ''Connection refused''))\<rparr>"

definition empty_world :: world where
  "empty_world = \<lparr>logfile = [], stdout = [], files = Map.empty, dbs = (\<lambda>name. Map.empty), heap = []\<rparr>"

definition gdp_table :: dataframe where
  "gdp_table = \<lparr>columns = [''Country/Territory'', ''UN region'', ''IMF estimate''],
     rows = [[Str (py ''World''), Str em_dash, Str (py ''105,568,776'')],
             [Str (py ''United States''), Str (py ''Americas''), Str (py ''26,854,599'')],
             [Str (py ''Tuvalu''), Str (py ''Oceania''), Str em_dash],
             [Str (py ''China''), Str (py ''Asia''), Str (py ''19,373,586[n 1]'')]]\<rparr>"

definition padded_world_table :: dataframe where
  "padded_world_table = \<lparr>columns = [''Country/Territory'', ''UN region'', ''IMF estimate''],
     rows = [[Str (py '' World''), Str em_dash, Str (py ''105,568,776'')]]\<rparr>"

definition banks_table :: dataframe where
  "banks_table = \<lparr>columns = [''Bank name'', ''Rank'', ''Market cap (US$ billion)''],
     rows = [[Str (py ''Bank A''), Str em_dash, Str (py ''12.3'')],
             [Str (py ''Bank B''), Str (py ''x''), Str em_dash]]\<rparr>"

definition heading_elem :: element where
  "heading_elem = \<lparr>tag = ''h2'', elem_id = Some (py ''By_market_capitalization''),
     classes = [], caption = None, read_html = Inl (ValueError, ''No tables found'')\<rparr>"

definition table_elem :: "pystr option \<Rightarrow> dataframe \<Rightarrow> element" where
  "table_elem cap df = \<lparr>tag = ''table'', elem_id = None, classes = [py ''wikitable''],
     caption = cap, read_html = Inr df\<rparr>"

definition banks_page :: "element list" where
  "banks_page = [heading_elem, table_elem None banks_table]"

definition gdp_page :: "element list" where
  "gdp_page = [table_elem (Some (py ''Largest economies'')) no_rows,
               table_elem (Some (py ''GDP (USD million) by country'')) gdp_table]"

definition two_rows :: dataframe where
  "two_rows = \<lparr>columns = [''Country'', ''GDP_USD_billion''],
     rows = [[Str (py ''United States''), Num 26854.6], [Str (py ''China''), Num 19373.59]]\<rparr>"

definition one_row :: dataframe where
  "one_row = \<lparr>columns = [''Country'', ''GDP_USD_billion''], rows = [[Str (py ''Japan''), Num 4409.74]]\<rparr>"

definition derived_frame :: "cell list \<Rightarrow> cell list \<Rightarrow> cell list \<Rightarrow> dataframe \<Rightarrow> dataframe" where
  "derived_frame gbp eur inr df =
     set_column ''MC_INR_Billion'' inr
       (set_column ''MC_EUR_Billion'' eur (set_column ''MC_GBP_Billion'' gbp df))"

definition extracted_frame :: dataframe where
  "extracted_frame = \<lparr>columns = [''Name'', ''MC_USD_Billion''],
     rows = [[Str (py ''Bank A''), Num 100], [Str (py ''Bank C''), Num 12.4]]\<rparr>"

definition transformed_frame :: dataframe where
  "transformed_frame =
     \<lparr>columns = [''Name'', ''MC_USD_Billion'', ''MC_GBP_Billion'', ''MC_EUR_Billion'', ''MC_INR_Billion''],
      rows = [[Str (py ''Bank A''), Num 100, Num 80, Num 93, Num 8295],
              [Str (py ''Bank C''), Num 12.4, Num 9.92, Num 11.53, Num 1028.58]]\<rparr>"

definition extracted_world :: world where
  "extracted_world = empty_world\<lparr>heap := [extracted_frame]\<rparr>"

section \<open>Facts about the frame operations\<close>

lemma select_zip_map:
  "map fst (filter snd (zip (map f xs) (map p xs))) = map f (filter p xs)"
  by (induction xs) auto

lemma assign_zip_map:
  "map (\<lambda>(r, v). F r v) (zip (map f xs) (map g xs)) = map (\<lambda>x. F (f x) (g x)) xs"
  by (induction xs) auto

lemma to_numeric_cell_not_Str: "\<not> is_Str (to_numeric_cell parse c)"
  by (cases c) (auto simp: to_numeric_cell_def split: option.splits)

lemma arith_col_numeric:
  "list_all (\<lambda>c. \<not> is_Str c) col \<Longrightarrow> arith_col f col = Inr (map (arith_cell f) col)"
proof (induction col)
  case Nil
  then show ?case by simp
next
  case (Cons c col)
  then show ?case by (cases c) (simp_all add: err_bind_def)
qed

lemma transform_frame_closed:
  assumes wide: "3 \<le> length (columns df)"
    and strs: "rows df = [] \<or> list_ex (\<lambda>r. is_Str (r ! 0)) (rows df)"
  shows "transform_frame parse df =
     Inr \<lparr>columns = [''Country'', ''GDP_USD_billion''],
          rows = map (\<lambda>r. [r ! 0, billions (clean_cell parse (r ! 2))])
                   (filter (gdp_kept parse) (rows df))\<rparr>"
proof -
  let ?rs = "rows df"
  let ?p = "\<lambda>r. \<not> excluded (r ! 0)"
  let ?q = "\<lambda>r. clean_cell parse (r ! 2) \<noteq> NaN"
  let ?low = "\<lambda>r. case r ! 0 of Str s \<Rightarrow> Str (lower s) | _ \<Rightarrow> NaN"
  have s1: "iloc_cols [0, 2] df = Inr \<lparr>columns = [columns df ! 0, columns df ! 2],
      rows = map (\<lambda>r. [r ! 0, r ! 2]) ?rs\<rparr>"
    using wide by (auto simp: iloc_cols_def)
  have s2: "str_lower (map (\<lambda>r. r ! 0) ?rs) = Inr (map ?low ?rs)"
    using strs by (auto simp: str_lower_def list_ex_iff o_def)
  have keep: "map Not (isin (map ?low ?rs) [py ''world'', em_dash]) = map ?p ?rs"
    by (auto simp: isin_def excluded_def split: cell.splits)
  have s3: "select_rows (map ?p ?rs)
        \<lparr>columns = [''Country'', ''GDP_USD_million''], rows = map (\<lambda>r. [r ! 0, r ! 2]) ?rs\<rparr>
      = \<lparr>columns = [''Country'', ''GDP_USD_million''],
         rows = map (\<lambda>r. [r ! 0, r ! 2]) (filter ?p ?rs)\<rparr>"
    by (simp add: select_rows_def select_zip_map)
  have s4: "set_column ''GDP_USD_million'' (replace_noise (map (\<lambda>r. r ! 2) xs))
        \<lparr>columns = [''Country'', ''GDP_USD_million''], rows = map (\<lambda>r. [r ! 0, r ! 2]) xs\<rparr>
      = \<lparr>columns = [''Country'', ''GDP_USD_million''],
         rows = map (\<lambda>r. [r ! 0, strip_cell (r ! 2)]) xs\<rparr>" for xs
    by (simp add: set_column_def replace_noise_def assign_zip_map)
  have s5: "set_column ''GDP_USD_million''
        (to_numeric parse (map (\<lambda>r. strip_cell (r ! 2)) xs))
        \<lparr>columns = [''Country'', ''GDP_USD_million''],
         rows = map (\<lambda>r. [r ! 0, strip_cell (r ! 2)]) xs\<rparr>
      = \<lparr>columns = [''Country'', ''GDP_USD_million''],
         rows = map (\<lambda>r. [r ! 0, clean_cell parse (r ! 2)]) xs\<rparr>" for xs
    by (simp add: set_column_def to_numeric_def assign_zip_map clean_cell_def)
  have s6: "dropna ''GDP_USD_million''
        \<lparr>columns = [''Country'', ''GDP_USD_million''],
         rows = map (\<lambda>r. [r ! 0, clean_cell parse (r ! 2)]) xs\<rparr>
      = Inr \<lparr>columns = [''Country'', ''GDP_USD_million''],
         rows = map (\<lambda>r. [r ! 0, clean_cell parse (r ! 2)]) (filter ?q xs)\<rparr>" for xs
    by (simp add: dropna_def filter_map o_def)
  have num: "list_all (\<lambda>c. \<not> is_Str c) (map (\<lambda>r. clean_cell parse (r ! 2)) xs)" for xs
    by (simp add: list_all_iff clean_cell_def to_numeric_cell_not_Str)
  have s7: "arith_col (\<lambda>x. x / 1000) (map (\<lambda>r. clean_cell parse (r ! 2)) xs)
      = Inr (map (\<lambda>r. arith_cell (\<lambda>x. x / 1000) (clean_cell parse (r ! 2))) xs)" for xs
    by (simp add: arith_col_numeric [OF num] o_def)
  have s8: "set_column ''GDP_USD_billion''
        (round_col 2 (map (\<lambda>r. arith_cell (\<lambda>x. x / 1000) (clean_cell parse (r ! 2))) xs))
        \<lparr>columns = [''Country'', ''GDP_USD_million''],
         rows = map (\<lambda>r. [r ! 0, clean_cell parse (r ! 2)]) xs\<rparr>
      = \<lparr>columns = [''Country'', ''GDP_USD_million'', ''GDP_USD_billion''],
         rows = map (\<lambda>r. [r ! 0, clean_cell parse (r ! 2), billions (clean_cell parse (r ! 2))]) xs\<rparr>" for xs
    by (simp add: set_column_def round_col_def assign_zip_map billions_def o_def)
  have s9: "select_columns [''Country'', ''GDP_USD_billion'']
        \<lparr>columns = [''Country'', ''GDP_USD_million'', ''GDP_USD_billion''],
         rows = map (\<lambda>r. [r ! 0, clean_cell parse (r ! 2), billions (clean_cell parse (r ! 2))]) xs\<rparr>
      = Inr \<lparr>columns = [''Country'', ''GDP_USD_billion''],
         rows = map (\<lambda>r. [r ! 0, billions (clean_cell parse (r ! 2))]) xs\<rparr>" for xs
    by (simp add: select_columns_def err_bind_def)
  have "gdp_kept parse = (\<lambda>r. ?p r \<and> ?q r)"
    by (auto simp: gdp_kept_def fun_eq_iff)
  then have kept: "filter ?q (filter ?p ?rs) = filter (gdp_kept parse) ?rs"
    by simp
  show ?thesis
    unfolding transform_frame_def kept [symmetric]
    by (simp add: s1 err_bind_def set_columns_def get_column_def s2 keep Let_def s3 s4 s5 s6 s7 s8 s9 o_def)
qed

lemma skip_bracket_strip:
  "skip_bracket cs = None \<Longrightarrow> skip_bracket (strip_noise cs) = None"
  by (induction cs rule: strip_noise.induct) (auto split: if_splits option.splits)

lemma strip_noise_idem: "strip_noise (strip_noise s) = strip_noise s"
  by (induction s rule: strip_noise.induct) (auto simp: skip_bracket_strip split: option.splits)

lemma strip_noise_chars: "c \<in> set (strip_noise s) \<Longrightarrow> c \<noteq> 44 \<and> c \<noteq> 8212"
  by (induction s rule: strip_noise.induct) (auto split: if_splits option.splits)

section \<open>The GDP variant: cleaning and filtering\<close>

text \<open>
  Claim C4. The numeric cleaning of \<^verbatim>\<open>transform_data\<close> (lines 73 to 79) raises
  for no cell. On a frame with the three columns the function reads and a country
  column of text, the whole transformation returns a frame whatever the GDP cells
  hold. Cleaning a column is cleaning each cell; a text whose remainder after the
  stripping is empty, or is not read as a number, becomes the missing value, and a
  text whose remainder is read as \<open>x\<close> becomes \<open>x\<close>. The stripping leaves nothing it
  would strip again: no comma, no dash, no bracketed footnote.
\<close>

theorem cleaning_never_raises:
  assumes "3 \<le> length (columns df)"
    and "rows df = [] \<or> list_ex (\<lambda>r. is_Str (r ! 0)) (rows df)"
  shows "(\<exists>out. transform_frame parse df = Inr out)
       \<and> to_numeric parse (replace_noise col) = map (clean_cell parse) col
       \<and> (strip_noise s = [] \<or> parse (strip_noise s) = None \<longrightarrow> clean_cell parse (Str s) = NaN)
       \<and> (\<forall>x. strip_noise s \<noteq> [] \<and> parse (strip_noise s) = Some x \<longrightarrow> clean_cell parse (Str s) = Num x)
       \<and> strip_noise (strip_noise s) = strip_noise s
       \<and> 44 \<notin> set (strip_noise s) \<and> 8212 \<notin> set (strip_noise s)"
proof -
  have "\<exists>out. transform_frame parse df = Inr out"
    using transform_frame_closed [OF assms] by simp
  moreover have "to_numeric parse (replace_noise col) = map (clean_cell parse) col"
    by (simp add: to_numeric_def replace_noise_def clean_cell_def)
  moreover have "strip_noise s = [] \<or> parse (strip_noise s) = None \<longrightarrow> clean_cell parse (Str s) = NaN"
    by (auto simp: clean_cell_def to_numeric_cell_def)
  moreover have "\<forall>x. strip_noise s \<noteq> [] \<and> parse (strip_noise s) = Some x \<longrightarrow> clean_cell parse (Str s) = Num x"
    by (auto simp: clean_cell_def to_numeric_cell_def)
  moreover have "44 \<notin> set (strip_noise s) \<and> 8212 \<notin> set (strip_noise s)"
    using strip_noise_chars by blast
  ultimately show ?thesis
    by (simp add: strip_noise_idem)
qed

lemma strip_na: "strip_noise (py ''n/a[1]'') = py ''n/a''"
  by (simp add: py_def)

lemma parse_na: "parse_decimal (py ''n/a'') = None"
  by (simp add: py_def parse_decimal_def)

theorem cleaning_never_raises_witness:
  "3 \<le> length (columns gdp_table)
   \<and> (rows gdp_table = [] \<or> list_ex (\<lambda>r. is_Str (r ! 0)) (rows gdp_table))
   \<and> (\<exists>out. transform_frame parse_decimal gdp_table = Inr out)
   \<and> to_numeric parse_decimal (replace_noise [Str (py ''n/a[1]''), Str em_dash]) = [NaN, NaN]
   \<and> parse_decimal (strip_noise (py ''n/a[1]'')) = None
   \<and> clean_cell parse_decimal (Str (py ''n/a[1]'')) = NaN"
proof -
  have h1: "3 \<le> length (columns gdp_table)"
    by (simp add: gdp_table_def)
  have h2: "rows gdp_table = [] \<or> list_ex (\<lambda>r. is_Str (r ! 0)) (rows gdp_table)"
    by (simp add: gdp_table_def)
  have h3: "parse_decimal (strip_noise (py ''n/a[1]'')) = None"
    by (simp add: strip_na parse_na)
  have h4: "clean_cell parse_decimal (Str em_dash) = NaN"
    by (simp add: clean_cell_def em_dash_def to_numeric_cell_def)
  show ?thesis
    using cleaning_never_raises [OF h1 h2, of parse_decimal "[Str (py ''n/a[1]''), Str em_dash]" "py ''n/a[1]''"]
      h1 h2 h3 h4
    by simp
qed

text \<open>
  Claim C3, amended. The row filter of \<^verbatim>\<open>transform_data\<close> (lines 71 to 82) drops
  exactly the rows whose country, lower-cased and not trimmed, is \<open>world\<close> or the
  dash, and the rows whose GDP cell is missing after the cleaning. The rows of the
  result are the kept rows of the input, one for one and in the order of the input.
\<close>

theorem row_filter_keeps_in_order:
  assumes "3 \<le> length (columns df)"
    and "rows df = [] \<or> list_ex (\<lambda>r. is_Str (r ! 0)) (rows df)"
  shows "(\<exists>out. transform_frame parse df = Inr out
            \<and> rows out = map (\<lambda>r. [r ! 0, billions (clean_cell parse (r ! 2))])
                            (filter (gdp_kept parse) (rows df))
            \<and> map (\<lambda>r. r ! 0) (rows out) = map (\<lambda>r. r ! 0) (filter (gdp_kept parse) (rows df)))
       \<and> (gdp_kept parse r \<longleftrightarrow>
            \<not> (\<exists>s. r ! 0 = Str s \<and> (lower s = py ''world'' \<or> lower s = em_dash))
            \<and> clean_cell parse (r ! 2) \<noteq> NaN)"
proof -
  have "gdp_kept parse r \<longleftrightarrow>
      \<not> (\<exists>s. r ! 0 = Str s \<and> (lower s = py ''world'' \<or> lower s = em_dash))
      \<and> clean_cell parse (r ! 2) \<noteq> NaN"
    by (auto simp: gdp_kept_def excluded_def split: cell.splits)
  then show ?thesis
    using transform_frame_closed [OF assms, of parse] by (simp add: o_def)
qed

theorem row_filter_keeps_in_order_witness:
  "3 \<le> length (columns gdp_table)
   \<and> (rows gdp_table = [] \<or> list_ex (\<lambda>r. is_Str (r ! 0)) (rows gdp_table))
   \<and> (\<exists>out. transform_frame parse_decimal gdp_table = Inr out
         \<and> map (\<lambda>r. r ! 0) (rows out) = [Str (py ''United States''), Str (py ''China'')])"
proof -
  have h1: "3 \<le> length (columns gdp_table)"
    by (simp add: gdp_table_def)
  have h2: "rows gdp_table = [] \<or> list_ex (\<lambda>r. is_Str (r ! 0)) (rows gdp_table)"
    by (simp add: gdp_table_def)
  have k: "filter (gdp_kept parse_decimal) (rows gdp_table) =
      [[Str (py ''United States''), Str (py ''Americas''), Str (py ''26,854,599'')],
       [Str (py ''China''), Str (py ''Asia''), Str (py ''19,373,586[n 1]'')]]"
    by (simp add: gdp_table_def gdp_kept_def excluded_def clean_cell_def to_numeric_cell_def py_def
        lower_def lower_char_def em_dash_def parse_decimal_def)
  show ?thesis
    using row_filter_keeps_in_order [OF h1 h2, where parse = parse_decimal and r = "[]"] h1 h2
    by (auto simp: k)
qed

text \<open>
  The claim as the specification words it fails: the key is lower-cased but not
  trimmed. A row whose country is \<open>World\<close> after a blank is excluded in the
  specification's reading, and the code keeps it.
\<close>

theorem trimmed_key_counterexample:
  "spec_excluded (Str (py '' World''))
   \<and> transform_frame parse_decimal padded_world_table =
       Inr \<lparr>columns = [''Country'', ''GDP_USD_billion''],
            rows = [[Str (py '' World''), Num 105568.78]]\<rparr>"
proof -
  have a: "spec_excluded (Str (py '' World''))"
    by (simp add: spec_excluded_def trimmed_def is_space_def py_def lower_def lower_char_def)
  have w: "3 \<le> length (columns padded_world_table)"
    by (simp add: padded_world_table_def)
  have s: "rows padded_world_table = [] \<or> list_ex (\<lambda>r. is_Str (r ! 0)) (rows padded_world_table)"
    by (simp add: padded_world_table_def)
  have k: "gdp_kept parse_decimal [Str (py '' World''), Str em_dash, Str (py ''105,568,776'')]"
    by (simp add: gdp_kept_def excluded_def clean_cell_def to_numeric_cell_def py_def lower_def
        lower_char_def em_dash_def parse_decimal_def)
  have b: "billions (clean_cell parse_decimal (Str (py ''105,568,776''))) = Num 105568.78"
    by (simp add: billions_def clean_cell_def to_numeric_cell_def py_def parse_decimal_def
        round_to_def rint_def Let_def)
  show ?thesis
    using a k b by (simp add: transform_frame_closed [OF w s]) (simp add: padded_world_table_def)
qed

section \<open>Locating the table\<close>

lemma starts_with_iff: "starts_with n h \<longleftrightarrow> (\<exists>s. h = n @ s)"
  by (induction n h rule: starts_with.induct) auto

lemma contains_iff: "contains n h \<longleftrightarrow> (\<exists>p s. h = p @ n @ s)"
proof (induction h)
  case Nil
  then show ?case by simp
next
  case (Cons y ys)
  show ?case
  proof
    assume "contains n (y # ys)"
    then consider "starts_with n (y # ys)" | "contains n ys" by auto
    then show "\<exists>p s. y # ys = p @ n @ s"
    proof cases
      case 1
      then obtain s where "y # ys = n @ s" using starts_with_iff by blast
      then have "y # ys = [] @ n @ s" by simp
      then show ?thesis by blast
    next
      case 2
      then obtain p s where "ys = p @ n @ s" using Cons.IH by blast
      then have "y # ys = (y # p) @ n @ s" by simp
      then show ?thesis by blast
    qed
  next
    assume "\<exists>p s. y # ys = p @ n @ s"
    then obtain p s where eq: "y # ys = p @ n @ s" by blast
    show "contains n (y # ys)"
    proof (cases p)
      case Nil
      then have "starts_with n (y # ys)" using eq starts_with_iff by auto
      then show ?thesis by simp
    next
      case (Cons a p')
      then have "ys = p' @ n @ s" using eq by simp
      then have "contains n ys" using Cons.IH by blast
      then show ?thesis by simp
    qed
  qed
qed

lemma caption_loop_find:
  "caption_loop ts w =
     (case find has_gdp_caption ts of
        None \<Rightarrow> (Inl (Exception, ''Could not find the correct GDP table by caption.''), w)
      | Some t \<Rightarrow> (read_html t, snd (log_step ''Found the correct GDP table using caption.'' w)))"
  by (induction ts) (simp_all add: raise_def seq_def log_step_def lift_def)

text \<open>
  Claim C6. With the page fetched (status 200), \<^verbatim>\<open>extract_data\<close> goes through the
  tables of class \<open>wikitable\<close> in document order and reads the first whose caption
  contains the text \<open>GDP (USD million) by country\<close>, as a contiguous run with the
  letters' case as given; when no such table has such a caption it raises.
\<close>

theorem caption_match_first:
  assumes "http_get env url = Inr resp" and "status_code resp = 200"
  shows "extract_data env url w =
     (case find has_gdp_caption (filter is_wikitable (soup resp)) of
        None \<Rightarrow> (Inl (Exception, ''Could not find the correct GDP table by caption.''),
                  snd (log_step ''Starting data extraction...'' w))
      | Some t \<Rightarrow> (read_html t,
                  snd (log_step ''Found the correct GDP table using caption.''
                        (snd (log_step ''Starting data extraction...'' w)))))
   \<and> (has_gdp_caption t \<longleftrightarrow>
        (\<exists>c p s. caption t = Some c \<and> c = p @ py ''GDP (USD million) by country'' @ s))"
proof -
  have "has_gdp_caption t \<longleftrightarrow>
      (\<exists>c p s. caption t = Some c \<and> c = p @ py ''GDP (USD million) by country'' @ s)"
    by (auto simp: has_gdp_caption_def contains_iff gdp_caption_def split: option.splits)
  moreover have "extract_data env url w =
      caption_loop (filter is_wikitable (soup resp)) (snd (log_step ''Starting data extraction...'' w))"
    using assms by (simp add: extract_data_def seq_def log_step_def lift_def find_all_wikitable_def)
  ultimately show ?thesis
    by (simp add: caption_loop_find)
qed

lemma gdp_page_find:
  "find has_gdp_caption (filter is_wikitable gdp_page) =
     Some (table_elem (Some (py ''GDP (USD million) by country'')) gdp_table)"
  by (simp add: gdp_page_def is_wikitable_def table_elem_def has_gdp_caption_def gdp_caption_def py_def)

theorem caption_match_first_witness:
  "http_get (sample_env gdp_page) gdp_url = Inr \<lparr>status_code = 200, soup = gdp_page\<rparr>
   \<and> status_code \<lparr>status_code = 200, soup = gdp_page\<rparr> = 200
   \<and> fst (extract_data (sample_env gdp_page) gdp_url empty_world) = Inr gdp_table
   \<and> logfile (snd (extract_data (sample_env gdp_page) gdp_url empty_world)) =
       [''Starting data extraction...'', ''Found the correct GDP table using caption.'']"
proof -
  have h1: "http_get (sample_env gdp_page) gdp_url = Inr \<lparr>status_code = 200, soup = gdp_page\<rparr>"
    by (simp add: sample_env_def)
  have h2: "status_code \<lparr>status_code = 200, soup = gdp_page\<rparr> = 200"
    by simp
  show ?thesis
    using caption_match_first [OF h1 h2, where w = empty_world and t = "table_elem None no_rows"] h1
    by (simp add: gdp_page_find log_step_def empty_world_def table_elem_def)
qed

section \<open>The banks variant: locating and extracting\<close>

lemma find_h2_None: "find_h2 ident doc = None \<longleftrightarrow> \<not> list_ex (is_heading ident) doc"
  by (induction doc) (auto simp: find_h2_def split: list.splits)

lemma find_h2_Some:
  assumes "find_h2 ident doc = Some hs"
  shows "\<exists>pre h post. doc = pre @ h # post \<and> hs = h # post
           \<and> \<not> list_ex (is_heading ident) pre \<and> is_heading ident h"
proof -
  let ?P = "\<lambda>e. \<not> is_heading ident e"
  from assms obtain h post where d: "dropWhile ?P doc = h # post" and hs: "hs = h # post"
    by (auto simp: find_h2_def split: list.splits)
  have "doc = takeWhile ?P doc @ h # post"
    using d takeWhile_dropWhile_id [of ?P doc] by simp
  moreover have "\<not> list_ex (is_heading ident) (takeWhile ?P doc)"
    by (auto simp: list_ex_iff dest: set_takeWhileD)
  moreover have "is_heading ident h"
    using d hd_dropWhile [of ?P doc] by (metis list.distinct(1) list.sel(1))
  ultimately show ?thesis using hs by blast
qed

lemma find_first_split:
  assumes "find P xs = Some t"
  shows "\<exists>mid rest. xs = mid @ t # rest \<and> \<not> list_ex P mid \<and> P t"
  using assms
proof (induction xs)
  case Nil
  then show ?case by simp
next
  case (Cons x xs)
  show ?case
  proof (cases "P x")
    case True
    then have "x = t" using Cons.prems by simp
    then have "x # xs = [] @ t # xs \<and> \<not> list_ex P [] \<and> P t" using True by simp
    then show ?thesis by blast
  next
    case False
    then have "find P xs = Some t" using Cons.prems by simp
    then obtain mid rest where "xs = mid @ t # rest" "\<not> list_ex P mid" "P t"
      using Cons.IH by blast
    then have "x # xs = (x # mid) @ t # rest \<and> \<not> list_ex P (x # mid) \<and> P t"
      using False by simp
    then show ?thesis by blast
  qed
qed

lemma find_None_ex: "find P xs = None \<longleftrightarrow> \<not> list_ex P xs"
  by (induction xs) auto

lemma extract_banks_result:
  assumes get: "http_get env url = Inr resp"
    and loc: "locate_table (soup resp) = Inr t"
    and html: "read_html t = Inr df"
    and wide: "3 \<le> length (columns df)"
  shows "extract_banks env url ATTRIBUTES w =
     (Inr (length (heap w)),
      w\<lparr>heap := heap w @ [\<lparr>columns = ATTRIBUTES,
                rows = map (\<lambda>r. [r ! 0, to_numeric_cell (parse_float env) (r ! 2)])
                         (filter (\<lambda>r. r ! 2 \<noteq> NaN) (rows df))\<rparr>],
        logfile := logfile w @ [''Data extraction complete. Initiating Transformation process'']\<rparr>)"
proof -
  have s1: "iloc_cols [0, 2] df = Inr \<lparr>columns = [columns df ! 0, columns df ! 2],
      rows = map (\<lambda>r. [r ! 0, r ! 2]) (rows df)\<rparr>"
    using wide by (auto simp: iloc_cols_def)
  have s2: "dropna ''MC_USD_Billion''
        \<lparr>columns = [''Name'', ''MC_USD_Billion''], rows = map (\<lambda>r. [r ! 0, r ! 2]) (rows df)\<rparr>
      = Inr \<lparr>columns = [''Name'', ''MC_USD_Billion''],
         rows = map (\<lambda>r. [r ! 0, r ! 2]) (filter (\<lambda>r. r ! 2 \<noteq> NaN) (rows df))\<rparr>"
    by (simp add: dropna_def filter_map o_def)
  have s3: "set_column ''MC_USD_Billion''
        (to_numeric parse (map (\<lambda>r. r ! 2) xs))
        \<lparr>columns = [''Name'', ''MC_USD_Billion''], rows = map (\<lambda>r. [r ! 0, r ! 2]) xs\<rparr>
      = \<lparr>columns = [''Name'', ''MC_USD_Billion''],
         rows = map (\<lambda>r. [r ! 0, to_numeric_cell parse (r ! 2)]) xs\<rparr>" for xs parse
    by (simp add: set_column_def to_numeric_def assign_zip_map)
  show ?thesis
    unfolding extract_banks_def
    by (simp add: seq_def lift_def get loc html s1 set_columns_def ATTRIBUTES_def s2
        new_frame_def frame_col_def get_column_def assign_column_def o_def s3
        log_progress_def ret_def)
qed

text \<open>
  Claim C5. The locator of the banks variant (lines 30 to 38 of \<^verbatim>\<open>extract\<close>)
  returns the first table of class \<open>wikitable\<close> after the first heading
  \<open>h2\<close> whose id is \<open>By_market_capitalization\<close>, in document order. It fails in two
  cases and no other: no such heading in the page, or no such table after the heading;
  each has its own message. \<^verbatim>\<open>extract\<close> passes a failure of the locator on, and on
  success builds its frame from the rows of the table found.
\<close>

theorem locate_table_nearest:
  "(case locate_table doc of
      Inr t \<Rightarrow>
        (\<exists>pre h mid post. doc = pre @ h # mid @ t # post
           \<and> \<not> list_ex (is_heading (py ''By_market_capitalization'')) pre
           \<and> is_heading (py ''By_market_capitalization'') h
           \<and> \<not> list_ex is_wikitable mid \<and> is_wikitable t)
    | Inl e \<Rightarrow>
        (e = (Exception, ''Heading with ID '' @ quoted ''By_market_capitalization'' @ '' not found'')
           \<and> \<not> list_ex (is_heading (py ''By_market_capitalization'')) doc)
        \<or> (e = (Exception, ''Target table not found after heading'')
           \<and> (\<exists>pre h post. doc = pre @ h # post
                 \<and> \<not> list_ex (is_heading (py ''By_market_capitalization'')) pre
                 \<and> is_heading (py ''By_market_capitalization'') h
                 \<and> \<not> list_ex is_wikitable post)))
   \<and> (http_get env url = Inr resp \<longrightarrow>
        (\<forall>e. locate_table (soup resp) = Inl e \<longrightarrow> extract_banks env url attribs w = (Inl e, w))
        \<and> (\<forall>t df. locate_table (soup resp) = Inr t \<and> read_html t = Inr df
               \<and> 3 \<le> length (columns df) \<longrightarrow>
             fst (extract_banks env url ATTRIBUTES w) = Inr (length (heap w))
             \<and> heap (snd (extract_banks env url ATTRIBUTES w)) ! length (heap w) =
                 \<lparr>columns = ATTRIBUTES,
                  rows = map (\<lambda>r. [r ! 0, to_numeric_cell (parse_float env) (r ! 2)])
                           (filter (\<lambda>r. r ! 2 \<noteq> NaN) (rows df))\<rparr>))"
proof -
  let ?anchor = "py ''By_market_capitalization''"
  have part1: "case locate_table doc of
      Inr t \<Rightarrow>
        (\<exists>pre h mid post. doc = pre @ h # mid @ t # post
           \<and> \<not> list_ex (is_heading ?anchor) pre \<and> is_heading ?anchor h
           \<and> \<not> list_ex is_wikitable mid \<and> is_wikitable t)
    | Inl e \<Rightarrow>
        (e = (Exception, ''Heading with ID '' @ quoted ''By_market_capitalization'' @ '' not found'')
           \<and> \<not> list_ex (is_heading ?anchor) doc)
        \<or> (e = (Exception, ''Target table not found after heading'')
           \<and> (\<exists>pre h post. doc = pre @ h # post
                 \<and> \<not> list_ex (is_heading ?anchor) pre \<and> is_heading ?anchor h
                 \<and> \<not> list_ex is_wikitable post))"
  proof (cases "find_h2 ?anchor doc")
    case None
    then have L: "locate_table doc =
        Inl (Exception, ''Heading with ID '' @ quoted ''By_market_capitalization'' @ '' not found'')"
      by (simp add: locate_table_def)
    have N: "\<not> list_ex (is_heading ?anchor) doc"
      using None find_h2_None by blast
    show ?thesis
      unfolding L sum.case by (intro disjI1 conjI refl N)
  next
    case (Some hs)
    then obtain pre h post where d: "doc = pre @ h # post" and hs: "hs = h # post"
      and pre: "\<not> list_ex (is_heading ?anchor) pre" and h: "is_heading ?anchor h"
      using find_h2_Some by blast
    show ?thesis
    proof (cases "find is_wikitable post")
      case None
      have L: "locate_table doc = Inl (Exception, ''Target table not found after heading'')"
        using Some None hs by (simp add: locate_table_def find_next_wikitable_def)
      have "\<not> list_ex is_wikitable post"
        using None by (simp add: find_None_ex)
      then have E: "\<exists>pre h post. doc = pre @ h # post
                 \<and> \<not> list_ex (is_heading ?anchor) pre \<and> is_heading ?anchor h
                 \<and> \<not> list_ex is_wikitable post"
        using d pre h by blast
      show ?thesis
        unfolding L sum.case by (intro disjI2 conjI refl E)
    next
      case (Some t)
      have L: "locate_table doc = Inr t"
        using \<open>find_h2 ?anchor doc = Some hs\<close> Some hs
        by (simp add: locate_table_def find_next_wikitable_def)
      obtain mid rest where post: "post = mid @ t # rest"
        and mid: "\<not> list_ex is_wikitable mid" and t: "is_wikitable t"
        using find_first_split [OF Some] by auto
      have "doc = pre @ h # mid @ t # rest"
        using d post by simp
      then have E: "\<exists>pre h mid post. doc = pre @ h # mid @ t # post
           \<and> \<not> list_ex (is_heading ?anchor) pre \<and> is_heading ?anchor h
           \<and> \<not> list_ex is_wikitable mid \<and> is_wikitable t"
        using pre h mid t by blast
      show ?thesis
        unfolding L sum.case by (rule E)
    qed
  qed
  have part23: "http_get env url = Inr resp \<longrightarrow>
        (\<forall>e. locate_table (soup resp) = Inl e \<longrightarrow> extract_banks env url attribs w = (Inl e, w))
        \<and> (\<forall>t df. locate_table (soup resp) = Inr t \<and> read_html t = Inr df
               \<and> 3 \<le> length (columns df) \<longrightarrow>
             fst (extract_banks env url ATTRIBUTES w) = Inr (length (heap w))
             \<and> heap (snd (extract_banks env url ATTRIBUTES w)) ! length (heap w) =
                 \<lparr>columns = ATTRIBUTES,
                  rows = map (\<lambda>r. [r ! 0, to_numeric_cell (parse_float env) (r ! 2)])
                           (filter (\<lambda>r. r ! 2 \<noteq> NaN) (rows df))\<rparr>)"
  proof (rule impI, rule conjI)
    assume get: "http_get env url = Inr resp"
    show "\<forall>e. locate_table (soup resp) = Inl e \<longrightarrow> extract_banks env url attribs w = (Inl e, w)"
      using get by (simp add: extract_banks_def seq_def lift_def)
  next
    assume get: "http_get env url = Inr resp"
    show "\<forall>t df. locate_table (soup resp) = Inr t \<and> read_html t = Inr df
               \<and> 3 \<le> length (columns df) \<longrightarrow>
             fst (extract_banks env url ATTRIBUTES w) = Inr (length (heap w))
             \<and> heap (snd (extract_banks env url ATTRIBUTES w)) ! length (heap w) =
                 \<lparr>columns = ATTRIBUTES,
                  rows = map (\<lambda>r. [r ! 0, to_numeric_cell (parse_float env) (r ! 2)])
                           (filter (\<lambda>r. r ! 2 \<noteq> NaN) (rows df))\<rparr>"
    proof (intro allI impI)
      fix t df
      assume a: "locate_table (soup resp) = Inr t \<and> read_html t = Inr df
               \<and> 3 \<le> length (columns df)"
      then have loc: "locate_table (soup resp) = Inr t" and html: "read_html t = Inr df"
        and wide: "3 \<le> length (columns df)" by simp_all
      show "fst (extract_banks env url ATTRIBUTES w) = Inr (length (heap w))
             \<and> heap (snd (extract_banks env url ATTRIBUTES w)) ! length (heap w) =
                 \<lparr>columns = ATTRIBUTES,
                  rows = map (\<lambda>r. [r ! 0, to_numeric_cell (parse_float env) (r ! 2)])
                           (filter (\<lambda>r. r ! 2 \<noteq> NaN) (rows df))\<rparr>"
        by (simp add: extract_banks_result [OF get loc html wide])
    qed
  qed
  show ?thesis
    by (rule conjI [OF part1 part23])
qed

lemma banks_page_locate: "locate_table banks_page = Inr (table_elem None banks_table)"
  by (simp add: locate_table_def find_h2_def find_next_wikitable_def banks_page_def heading_elem_def
      table_elem_def is_heading_def is_wikitable_def py_def)

theorem locate_table_nearest_witness:
  "locate_table banks_page = Inr (table_elem None banks_table)
   \<and> banks_page = [] @ heading_elem # [] @ table_elem None banks_table # []
   \<and> http_get (sample_env banks_page) URL = Inr \<lparr>status_code = 200, soup = banks_page\<rparr>
   \<and> read_html (table_elem None banks_table) = Inr banks_table
   \<and> 3 \<le> length (columns banks_table)
   \<and> fst (extract_banks (sample_env banks_page) URL ATTRIBUTES empty_world) = Inr 0
   \<and> rows (heap (snd (extract_banks (sample_env banks_page) URL ATTRIBUTES empty_world)) ! 0) =
       [[Str (py ''Bank A''), Num 12.3], [Str (py ''Bank B''), NaN]]"
proof -
  have h1: "http_get (sample_env banks_page) URL = Inr \<lparr>status_code = 200, soup = banks_page\<rparr>"
    by (simp add: sample_env_def)
  have h2: "read_html (table_elem None banks_table) = Inr banks_table"
    by (simp add: table_elem_def)
  have h3: "3 \<le> length (columns banks_table)"
    by (simp add: banks_table_def)
  have h4: "map (\<lambda>r. [r ! 0, to_numeric_cell parse_decimal (r ! 2)])
        (filter (\<lambda>r. r ! 2 \<noteq> NaN) (rows banks_table)) =
      [[Str (py ''Bank A''), Num 12.3], [Str (py ''Bank B''), NaN]]"
    by (simp add: banks_table_def to_numeric_cell_def parse_decimal_def py_def em_dash_def)
  have h5: "parse_float (sample_env banks_page) = parse_decimal"
    by (simp add: sample_env_def)
  have h6: "banks_page = [] @ heading_elem # [] @ table_elem None banks_table # []"
    by (simp add: banks_page_def)
  show ?thesis
    using locate_table_nearest [where doc = banks_page and env = "sample_env banks_page"
        and url = URL and resp = "\<lparr>status_code = 200, soup = banks_page\<rparr>"
        and w = empty_world and attribs = ATTRIBUTES]
      h1 h2 h3 h6 banks_page_locate
    by (simp add: h4 h5 empty_world_def)
qed

section \<open>Loading into the database\<close>

lemma load_to_db_result:
  "load_to_db d conn t w =
     (Inr (), (put_table conn t (Some (heap w ! d)) w)
        \<lparr>logfile := logfile w @ [''Data loaded to Database as a table, Executing queries'']\<rparr>)"
  by (simp add: load_to_db_def seq_def frame_at_def to_sql_replace_def log_progress_def put_table_def)

lemma insert_row_same:
  "length r = 2 \<Longrightarrow>
   insert_row [''Country'', ''GDP_USD_billion''] [''Country'', ''GDP_USD_billion''] r = r"
  by (cases r; cases "tl r") (auto simp: insert_row_def)

lemma load_to_database_result:
  assumes "connect_error env db_name = None"
    and "columns df = [''Country'', ''GDP_USD_billion'']"
    and "list_all (\<lambda>r. length r = 2) (rows df)"
  shows "load_to_database env df db_name w =
     (Inr db_name, (put_table db_name ''Countries_by_GDP'' (Some df) w)
        \<lparr>stdout := stdout w @ [''Saving data to database: '' @ db_name, ''Data loaded into database.''],
         logfile := logfile w @ [''Saving data to database: '' @ db_name, ''Data loaded into database.'']\<rparr>)"
proof -
  have "map (insert_row [''Country'', ''GDP_USD_billion''] [''Country'', ''GDP_USD_billion'']) (rows df)
      = rows df"
    using assms(3) by (induction "rows df") (auto simp: list_all_iff insert_row_same map_idI)
  then have "\<lparr>columns = [''Country'', ''GDP_USD_billion''],
      rows = map (insert_row [''Country'', ''GDP_USD_billion''] [''Country'', ''GDP_USD_billion'']) (rows df)\<rparr> = df"
    using assms(2) by simp
  then show ?thesis
    using assms(1,2)
    by (simp add: load_to_database_def seq_def log_step_def connect_def ret_def
        drop_table_if_exists_def create_table_def to_sql_append_def put_table_def)
qed

text \<open>
  Claim C8. Of two loads into one table, the second decides what the table holds. In
  the banks variant (\<^verbatim>\<open>to_sql\<close> with \<^verbatim>\<open>if_exists='replace'\<close>) the table is the frame
  of the second load. In the GDP variant (drop, create, append) the table is the
  second frame as well, whatever the first load did. The row counts play no role, so
  nothing is supposed about them.
\<close>

theorem second_load_replaces_first:
  assumes "connect_error env db_name = None"
    and "columns df2 = [''Country'', ''GDP_USD_billion'']"
    and "list_all (\<lambda>r. length r = 2) (rows df2)"
  shows "fst (load_to_db d2 conn t (snd (load_to_db d1 conn t w))) = Inr ()
       \<and> dbs (snd (load_to_db d2 conn t (snd (load_to_db d1 conn t w)))) conn t = Some (heap w ! d2)
       \<and> fst (load_to_database env df2 db_name (snd (load_to_database env df1 db_name w))) = Inr db_name
       \<and> dbs (snd (load_to_database env df2 db_name (snd (load_to_database env df1 db_name w))))
            db_name ''Countries_by_GDP'' = Some df2"
proof -
  have "fst (load_to_db d2 conn t (snd (load_to_db d1 conn t w))) = Inr ()
       \<and> dbs (snd (load_to_db d2 conn t (snd (load_to_db d1 conn t w)))) conn t = Some (heap w ! d2)"
    by (simp add: load_to_db_result put_table_def)
  moreover have "fst (load_to_database env df2 db_name w1) = Inr db_name
       \<and> dbs (snd (load_to_database env df2 db_name w1)) db_name ''Countries_by_GDP'' = Some df2" for w1
    by (simp add: load_to_database_result [OF assms] put_table_def)
  ultimately show ?thesis by simp
qed

theorem second_load_replaces_first_witness:
  "connect_error (sample_env []) ''World_Economies.db'' = None
   \<and> columns one_row = [''Country'', ''GDP_USD_billion'']
   \<and> list_all (\<lambda>r. length r = 2) (rows one_row)
   \<and> dbs (snd (load_to_db 1 DB_NAME TABLE_NAME
          (snd (load_to_db 0 DB_NAME TABLE_NAME (empty_world\<lparr>heap := [two_rows, one_row]\<rparr>)))))
        DB_NAME TABLE_NAME = Some one_row
   \<and> dbs (snd (load_to_database (sample_env []) one_row ''World_Economies.db''
          (snd (load_to_database (sample_env []) two_rows ''World_Economies.db'' empty_world))))
        ''World_Economies.db'' ''Countries_by_GDP'' = Some one_row"
proof -
  have h1: "connect_error (sample_env []) ''World_Economies.db'' = None"
    by (simp add: sample_env_def)
  have h2: "columns one_row = [''Country'', ''GDP_USD_billion'']"
    by (simp add: one_row_def)
  have h3: "list_all (\<lambda>r. length r = 2) (rows one_row)"
    by (simp add: one_row_def)
  show ?thesis
    using second_load_replaces_first [OF h1 h2 h3, where ?d1.0 = 0 and ?d2.0 = 1
        and conn = DB_NAME and t = TABLE_NAME and w = "empty_world\<lparr>heap := [two_rows, one_row]\<rparr>"
        and ?df1.0 = two_rows]
      second_load_replaces_first [OF h1 h2 h3, where ?d1.0 = 0 and ?d2.0 = 1
        and conn = DB_NAME and t = TABLE_NAME and w = empty_world and ?df1.0 = two_rows]
      h1 h2 h3
    by simp
qed

section \<open>Failures and the log\<close>

text \<open>
  Claim C2, amended. In the GDP variant every exception raised inside the
  \<^verbatim>\<open>try\<close> of \<^verbatim>\<open>main\<close> is caught, and \<^verbatim>\<open>main\<close> returns after it has written the
  line \<open>ETL process failed:\<close> with the message of the exception; so it is for a
  network failure and for a table that is not found, and the failures of the two sinks
  are raised inside that \<^verbatim>\<open>try\<close>. The banks variant has no handler: an exception of
  \<^verbatim>\<open>extract\<close> ends the script in the world in which it was raised.
\<close>

theorem main_logs_every_failure:
  "(main_try env (snd (log_step ''ETL process started.'' w)) = (Inl e, w') \<longrightarrow>
      main env w = (Inr (), snd (log_step (''ETL process failed: '' @ snd e) w'))
      \<and> logfile (snd (main env w)) = logfile w' @ [''ETL process failed: '' @ snd e])
   \<and> (http_get env gdp_url = Inl e \<longrightarrow>
        fst (main env w) = Inr ()
        \<and> logfile (snd (main env w)) =
            logfile w @ [''ETL process started.'', ''Starting data extraction...'',
                         ''ETL process failed: '' @ snd e])
   \<and> (http_get env gdp_url = Inr resp \<and> status_code resp = 200
        \<and> find has_gdp_caption (filter is_wikitable (soup resp)) = None \<longrightarrow>
        fst (main env w) = Inr ()
        \<and> logfile (snd (main env w)) =
            logfile w @ [''ETL process started.'', ''Starting data extraction...'',
                         ''ETL process failed: Could not find the correct GDP table by caption.''])
   \<and> (to_csv_error env path = Some e \<longrightarrow>
        load_to_csv_gdp env df path w = (Inl e, snd (log_step (''Saving data to CSV file: '' @ path) w)))
   \<and> (connect_error env path = Some e \<longrightarrow>
        load_to_database env df path w = (Inl e, snd (log_step (''Saving data to database: '' @ path) w)))
   \<and> (extract_banks env URL ATTRIBUTES
          (snd (log_progress ''Preliminaries complete. Initiating ETL process'' w)) = (Inl e, w') \<longrightarrow>
        banks_script env w = (Inl e, w'))"
proof -
  have general: "main_try env (snd (log_step ''ETL process started.'' w)) = (Inl e, w') \<longrightarrow>
      main env w = (Inr (), snd (log_step (''ETL process failed: '' @ snd e) w'))
      \<and> logfile (snd (main env w)) = logfile w' @ [''ETL process failed: '' @ snd e]"
    by (simp add: main_def seq_def try_except_def log_step_def)
  have network: "http_get env gdp_url = Inl e \<longrightarrow>
        fst (main env w) = Inr ()
        \<and> logfile (snd (main env w)) =
            logfile w @ [''ETL process started.'', ''Starting data extraction...'',
                         ''ETL process failed: '' @ snd e]"
    by (simp add: main_def main_try_def extract_data_def seq_def try_except_def log_step_def lift_def)
  have nf: "http_get env gdp_url = Inr resp \<and> status_code resp = 200
        \<and> find has_gdp_caption (filter is_wikitable (soup resp)) = None \<longrightarrow>
        fst (main env w) = Inr ()
        \<and> logfile (snd (main env w)) =
            logfile w @ [''ETL process started.'', ''Starting data extraction...'',
                         ''ETL process failed: Could not find the correct GDP table by caption.'']"
    by (simp add: main_def main_try_def extract_data_def seq_def try_except_def log_step_def lift_def
        caption_loop_find find_all_wikitable_def)
  have csv: "to_csv_error env path = Some e \<longrightarrow>
        load_to_csv_gdp env df path w = (Inl e, snd (log_step (''Saving data to CSV file: '' @ path) w))"
    by (simp add: load_to_csv_gdp_def seq_def log_step_def to_csv_def)
  have db: "connect_error env path = Some e \<longrightarrow>
        load_to_database env df path w = (Inl e, snd (log_step (''Saving data to database: '' @ path) w))"
    by (simp add: load_to_database_def seq_def log_step_def connect_def raise_def)
  have banks: "extract_banks env URL ATTRIBUTES
          (snd (log_progress ''Preliminaries complete. Initiating ETL process'' w)) = (Inl e, w') \<longrightarrow>
        banks_script env w = (Inl e, w')"
    by (simp add: banks_script_def seq_def log_progress_def)
  show ?thesis
    by (intro conjI general network nf csv db banks)
qed

theorem main_logs_every_failure_witness:
  "http_get offline_env gdp_url = Inl (RequestException, ''Connection refused'')
   \<and> main offline_env empty_world =
       (Inr (), empty_world
          \<lparr>stdout := [''ETL process started.'', ''Starting data extraction...'',
                      ''ETL process failed: Connection refused''],
           logfile := [''ETL process started.'', ''Starting data extraction...'',
                       ''ETL process failed: Connection refused'']\<rparr>)"
proof -
  have h: "http_get offline_env gdp_url = Inl (RequestException, ''Connection refused'')"
    by (simp add: offline_env_def)
  have t: "main_try offline_env (snd (log_step ''ETL process started.'' empty_world)) =
      (Inl (RequestException, ''Connection refused''),
       snd (log_step ''Starting data extraction...'' (snd (log_step ''ETL process started.'' empty_world))))"
    using h by (simp add: main_try_def extract_data_def seq_def lift_def log_step_def)
  show ?thesis
    using main_logs_every_failure [where env = offline_env and w = empty_world
        and e = "(RequestException, ''Connection refused'')"
        and w' = "snd (log_step ''Starting data extraction...'' (snd (log_step ''ETL process started.'' empty_world)))"
        and resp = "\<lparr>status_code = 200, soup = []\<rparr>" and path = "[]" and df = no_rows] h t
    by (simp add: log_step_def empty_world_def)
qed

text \<open>
  The claim fails for the banks variant: with no heading in the page, and with no
  network, the script ends with the exception and the log holds only the line written
  before the extraction.
\<close>

theorem banks_failure_not_logged_counterexample:
  "fst (banks_script (sample_env []) empty_world) =
     Inl (Exception, ''Heading with ID '' @ quoted ''By_market_capitalization'' @ '' not found'')
   \<and> logfile (snd (banks_script (sample_env []) empty_world)) =
       [''Preliminaries complete. Initiating ETL process'']
   \<and> fst (banks_script offline_env empty_world) = Inl (RequestException, ''Connection refused'')
   \<and> logfile (snd (banks_script offline_env empty_world)) =
       [''Preliminaries complete. Initiating ETL process'']"
  by (simp add: banks_script_def extract_banks_def seq_def lift_def log_progress_def sample_env_def
      offline_env_def locate_table_def find_h2_def empty_world_def)

section \<open>Columns read and written\<close>

lemma index_of_Some: "index_of x xs = Some i \<Longrightarrow> i < length xs \<and> xs ! i = x"
  by (induction xs arbitrary: i) (auto split: if_splits)

lemma index_of_None: "index_of x xs = None \<longleftrightarrow> x \<notin> set xs"
  by (induction xs) auto

lemma index_of_append_old: "index_of x xs = Some i \<Longrightarrow> index_of x (xs @ ys) = Some i"
  by (induction xs arbitrary: i) (auto split: if_splits)

lemma index_of_append_new: "x \<notin> set xs \<Longrightarrow> index_of x (xs @ [x]) = Some (length xs)"
  by (induction xs) auto

lemma index_of_append_other:
  "x \<noteq> y \<Longrightarrow> index_of x xs = None \<Longrightarrow> index_of x (xs @ [y]) = None"
  by (simp add: index_of_None)

lemma columns_set_column:
  "columns (set_column n vals df) =
     (if n \<in> set (columns df) then columns df else columns df @ [n])"
proof (cases "index_of n (columns df)")
  case None
  then have "n \<notin> set (columns df)" by (simp add: index_of_None)
  with None show ?thesis by (simp add: set_column_def)
next
  case (Some i)
  then have "n \<in> set (columns df)" using index_of_None [of n "columns df"] by auto
  with Some show ?thesis by (simp add: set_column_def)
qed

lemma length_rows_set_column:
  "length vals = length (rows df) \<Longrightarrow> length (rows (set_column n vals df)) = length (rows df)"
  by (cases "index_of n (columns df)") (simp_all add: set_column_def)

lemma wf_set_column:
  assumes "wf_frame df"
  shows "wf_frame (set_column n vals df)"
proof (cases "index_of n (columns df)")
  case None
  then have "n \<notin> set (columns df)" by (simp add: index_of_None)
  then show ?thesis
    using assms None by (auto simp: wf_frame_def set_column_def list_all_iff dest: set_zip_leftD)
next
  case (Some i)
  then show ?thesis
    using assms by (auto simp: wf_frame_def set_column_def list_all_iff dest: set_zip_leftD)
qed

lemma map_update_zip:
  "length vals = length rs \<Longrightarrow> \<forall>r \<in> set rs. i < length r \<Longrightarrow>
   map ((\<lambda>r. r ! i) \<circ> (\<lambda>(r, v). r[i := v])) (zip rs vals) = vals"
  by (induction vals rs rule: list_induct2) auto

lemma map_append_zip:
  "length vals = length rs \<Longrightarrow> \<forall>r \<in> set rs. length r = k \<Longrightarrow>
   map ((\<lambda>r. r ! k) \<circ> (\<lambda>(r, v). r @ [v])) (zip rs vals) = vals"
  by (induction vals rs rule: list_induct2) auto

lemma get_set_same:
  assumes wf: "wf_frame df" and len: "length vals = length (rows df)"
  shows "get_column n (set_column n vals df) = Inr vals"
proof (cases "index_of n (columns df)")
  case None
  then have new: "index_of n (columns df @ [n]) = Some (length (columns df))"
    by (simp add: index_of_None index_of_append_new)
  have "\<forall>r \<in> set (rows df). length r = length (columns df)"
    using wf by (simp add: wf_frame_def list_all_iff)
  then show ?thesis
    using None new len by (simp add: get_column_def set_column_def map_append_zip)
next
  case (Some i)
  then have "i < length (columns df)" by (simp add: index_of_Some)
  then have "\<forall>r \<in> set (rows df). i < length r"
    using wf by (simp add: wf_frame_def list_all_iff)
  then show ?thesis
    using Some len by (simp add: get_column_def set_column_def map_update_zip)
qed

lemma map_update_zip_other:
  "length vals = length rs \<Longrightarrow> i \<noteq> j \<Longrightarrow>
   map ((\<lambda>r. r ! j) \<circ> (\<lambda>(r, v). r[i := v])) (zip rs vals) = map (\<lambda>r. r ! j) rs"
  by (induction vals rs rule: list_induct2) auto

lemma map_append_zip_other:
  "length vals = length rs \<Longrightarrow> \<forall>r \<in> set rs. j < length r \<Longrightarrow>
   map ((\<lambda>r. r ! j) \<circ> (\<lambda>(r, v). r @ [v])) (zip rs vals) = map (\<lambda>r. r ! j) rs"
  by (induction vals rs rule: list_induct2) (auto simp: nth_append)

lemma get_set_other:
  assumes wf: "wf_frame df" and len: "length vals = length (rows df)" and ne: "m \<noteq> n"
  shows "get_column m (set_column n vals df) = get_column m df"
proof (cases "index_of n (columns df)")
  case None
  show ?thesis
  proof (cases "index_of m (columns df)")
    case None
    then have "index_of m (columns df @ [n]) = None"
      using ne by (simp add: index_of_append_other)
    then show ?thesis
      using None \<open>index_of n (columns df) = None\<close> by (simp add: get_column_def set_column_def)
  next
    case (Some j)
    then have j: "j < length (columns df)" by (simp add: index_of_Some)
    then have "\<forall>r \<in> set (rows df). j < length r"
      using wf by (simp add: wf_frame_def list_all_iff)
    then show ?thesis
      using Some \<open>index_of n (columns df) = None\<close> len index_of_append_old [OF Some, of "[n]"]
      by (simp add: get_column_def set_column_def map_append_zip_other)
  qed
next
  case (Some i)
  show ?thesis
  proof (cases "index_of m (columns df)")
    case None
    then show ?thesis
      using Some by (simp add: get_column_def set_column_def)
  next
    case (Some j)
    have "i \<noteq> j"
      using index_of_Some [OF Some] index_of_Some [OF \<open>index_of n (columns df) = Some i\<close>] ne by auto
    then show ?thesis
      using Some \<open>index_of n (columns df) = Some i\<close> len
      by (simp add: get_column_def set_column_def map_update_zip_other)
  qed
qed

lemma map_update_zip_id:
  "map (\<lambda>(r, v). r[i := v]) (zip rs (map (\<lambda>r. r ! i) rs)) = rs"
  by (induction rs) auto

lemma set_column_id:
  assumes "get_column n df = Inr vals"
  shows "set_column n vals df = df"
proof -
  from assms obtain i where i: "index_of n (columns df) = Some i"
    and vals: "vals = map (\<lambda>r. r ! i) (rows df)"
    by (auto simp: get_column_def split: option.splits)
  show ?thesis
    by (simp add: set_column_def i vals map_update_zip_id)
qed

lemma arith_col_Inr:
  "arith_col f col = Inr r \<Longrightarrow> r = map (arith_cell f) col \<and> list_all (\<lambda>c. \<not> is_Str c) col"
proof (induction col arbitrary: r)
  case Nil
  then show ?case by simp
next
  case (Cons c col)
  then show ?case
    by (cases c) (auto simp: err_bind_def split: sum.splits)
qed

lemma times_col_length: "times_col col rate = Inr pr \<Longrightarrow> length pr = length col"
  by (cases rate) (auto simp: err_bind_def dest: arith_col_Inr split: sum.splits)

lemma times_col_Num:
  "list_all (\<lambda>c. \<not> is_Str c) col \<Longrightarrow>
   times_col col (Num g) = Inr (map (arith_cell (\<lambda>x. x * g)) col)"
  by (simp add: arith_col_numeric)

section \<open>The banks variant: the derived columns\<close>

lemma get_column_length: "get_column n df = Inr col \<Longrightarrow> length col = length (rows df)"
  by (auto simp: get_column_def split: option.splits)

lemma derive_column_Inr:
  assumes "derive_column r rates name cur w = (Inr u, w')"
  shows "\<exists>usd rate pr. get_column ''MC_USD_Billion'' (heap w ! r) = Inr usd
           \<and> dict_get rates cur = Inr rate \<and> times_col usd rate = Inr pr
           \<and> w' = w\<lparr>heap := (heap w)[r := set_column name (round_col 2 pr) (heap w ! r)]\<rparr>"
  using assms
  by (auto simp: derive_column_def seq_def frame_col_def lift_def assign_column_def split: sum.splits)

lemma derive_column_run:
  assumes "get_column ''MC_USD_Billion'' (heap w ! r) = Inr usd"
    and "dict_get rates cur = Inr rate" and "times_col usd rate = Inr pr"
  shows "derive_column r rates name cur w =
     (Inr (), w\<lparr>heap := (heap w)[r := set_column name (round_col 2 pr) (heap w ! r)]\<rparr>)"
  using assms by (simp add: derive_column_def seq_def frame_col_def lift_def assign_column_def)

lemma transform_run:
  assumes rates: "read_rates env csv = Inr rates"
    and usd: "get_column ''MC_USD_Billion'' (heap w ! r) = Inr usd"
    and g: "dict_get rates ''GBP'' = Inr g" and pg: "times_col usd g = Inr pg"
    and e: "dict_get rates ''EUR'' = Inr e" and pe: "times_col usd e = Inr pe"
    and i: "dict_get rates ''INR'' = Inr i" and pn: "times_col usd i = Inr pn"
    and r: "r < length (heap w)" and wf: "wf_frame (heap w ! r)"
  shows "transform env r csv w =
     (Inr r, w\<lparr>heap := (heap w)[r := derived_frame (round_col 2 pg) (round_col 2 pe)
                                      (round_col 2 pn) (heap w ! r)],
              logfile := logfile w @ [''Data transformation complete. Initiating Loading process'']\<rparr>)"
proof -
  let ?df = "heap w ! r"
  let ?d1 = "set_column ''MC_GBP_Billion'' (round_col 2 pg) ?df"
  let ?d2 = "set_column ''MC_EUR_Billion'' (round_col 2 pe) ?d1"
  let ?d3 = "set_column ''MC_INR_Billion'' (round_col 2 pn) ?d2"
  let ?w1 = "w\<lparr>heap := (heap w)[r := ?d1]\<rparr>"
  let ?w2 = "w\<lparr>heap := (heap w)[r := ?d2]\<rparr>"
  let ?w3 = "w\<lparr>heap := (heap w)[r := ?d3]\<rparr>"
  have len: "length usd = length (rows ?df)"
    using usd by (rule get_column_length)
  have lg: "length (round_col 2 pg) = length (rows ?df)"
    using times_col_length [OF pg] len by (simp add: round_col_def)
  have le: "length (round_col 2 pe) = length (rows ?d1)"
    using times_col_length [OF pe] len lg by (simp add: round_col_def length_rows_set_column)
  have wf1: "wf_frame ?d1" using wf by (rule wf_set_column)
  have usd1: "get_column ''MC_USD_Billion'' ?d1 = Inr usd"
    using get_set_other [OF wf lg, of "''MC_USD_Billion''" "''MC_GBP_Billion''"] usd by simp
  have usd2: "get_column ''MC_USD_Billion'' ?d2 = Inr usd"
    using get_set_other [OF wf1 le, of "''MC_USD_Billion''" "''MC_EUR_Billion''"] usd1 by simp
  have s1: "derive_column r rates ''MC_GBP_Billion'' ''GBP'' w = (Inr (), ?w1)"
    by (rule derive_column_run [OF usd g pg])
  have h1: "heap ?w1 ! r = ?d1" using r by simp
  have s2: "derive_column r rates ''MC_EUR_Billion'' ''EUR'' ?w1 = (Inr (), ?w2)"
    using derive_column_run [of ?w1 r usd rates "''EUR''" e pe "''MC_EUR_Billion''"] usd1 e pe h1
    by simp
  have h2: "heap ?w2 ! r = ?d2" using r by simp
  have s3: "derive_column r rates ''MC_INR_Billion'' ''INR'' ?w2 = (Inr (), ?w3)"
    using derive_column_run [of ?w2 r usd rates "''INR''" i pn "''MC_INR_Billion''"] usd2 i pn h2
    by simp
  show ?thesis
    unfolding transform_def
    by (simp add: seq_def lift_def rates s1 s2 s3 log_progress_def ret_def derived_frame_def)
qed

lemma transform_Inr:
  assumes ok: "transform env r csv w = (Inr r', w')"
    and r: "r < length (heap w)" and wf: "wf_frame (heap w ! r)"
  shows "\<exists>rates usd g pg e pe i pn.
      read_rates env csv = Inr rates
      \<and> get_column ''MC_USD_Billion'' (heap w ! r) = Inr usd
      \<and> dict_get rates ''GBP'' = Inr g \<and> times_col usd g = Inr pg
      \<and> dict_get rates ''EUR'' = Inr e \<and> times_col usd e = Inr pe
      \<and> dict_get rates ''INR'' = Inr i \<and> times_col usd i = Inr pn
      \<and> r' = r
      \<and> w' = w\<lparr>heap := (heap w)[r := derived_frame (round_col 2 pg) (round_col 2 pe)
                                      (round_col 2 pn) (heap w ! r)],
              logfile := logfile w @ [''Data transformation complete. Initiating Loading process'']\<rparr>"
proof -
  let ?df = "heap w ! r"
  from ok obtain rates w1 w2 w3 where rates: "read_rates env csv = Inr rates"
    and s1: "derive_column r rates ''MC_GBP_Billion'' ''GBP'' w = (Inr (), w1)"
    and s2: "derive_column r rates ''MC_EUR_Billion'' ''EUR'' w1 = (Inr (), w2)"
    and s3: "derive_column r rates ''MC_INR_Billion'' ''INR'' w2 = (Inr (), w3)"
    by (auto simp: transform_def seq_def lift_def split: sum.splits prod.splits)
  from derive_column_Inr [OF s1] obtain usd g pg where
    usd: "get_column ''MC_USD_Billion'' ?df = Inr usd" and g: "dict_get rates ''GBP'' = Inr g"
    and pg: "times_col usd g = Inr pg"
    and w1: "w1 = w\<lparr>heap := (heap w)[r := set_column ''MC_GBP_Billion'' (round_col 2 pg) ?df]\<rparr>"
    by blast
  let ?d1 = "set_column ''MC_GBP_Billion'' (round_col 2 pg) ?df"
  have len: "length usd = length (rows ?df)"
    using usd by (rule get_column_length)
  have lg: "length (round_col 2 pg) = length (rows ?df)"
    using times_col_length [OF pg] len by (simp add: round_col_def)
  have wf1: "wf_frame ?d1" using wf by (rule wf_set_column)
  have h1: "heap w1 ! r = ?d1" using r w1 by simp
  have usd1: "get_column ''MC_USD_Billion'' ?d1 = Inr usd"
    using get_set_other [OF wf lg, of "''MC_USD_Billion''" "''MC_GBP_Billion''"] usd by simp
  from derive_column_Inr [OF s2] obtain e pe where e: "dict_get rates ''EUR'' = Inr e"
    and pe: "times_col usd e = Inr pe"
    and w2: "w2 = w1\<lparr>heap := (heap w1)[r := set_column ''MC_EUR_Billion'' (round_col 2 pe) ?d1]\<rparr>"
    using h1 usd1 by auto
  let ?d2 = "set_column ''MC_EUR_Billion'' (round_col 2 pe) ?d1"
  have le: "length (round_col 2 pe) = length (rows ?d1)"
    using times_col_length [OF pe] len lg by (simp add: round_col_def length_rows_set_column)
  have h2: "heap w2 ! r = ?d2" using r w1 w2 by simp
  have usd2: "get_column ''MC_USD_Billion'' ?d2 = Inr usd"
    using get_set_other [OF wf1 le, of "''MC_USD_Billion''" "''MC_EUR_Billion''"] usd1 by simp
  from derive_column_Inr [OF s3] obtain i pn where i: "dict_get rates ''INR'' = Inr i"
    and pn: "times_col usd i = Inr pn"
    using h2 usd2 by auto
  have "(Inr r', w') = (Inr r, w\<lparr>heap := (heap w)[r := derived_frame (round_col 2 pg) (round_col 2 pe)
                                      (round_col 2 pn) (heap w ! r)],
              logfile := logfile w @ [''Data transformation complete. Initiating Loading process'']\<rparr>)"
    using transform_run [OF rates usd g pg e pe i pn r wf] ok by simp
  then have res: "r' = r \<and> w' = w\<lparr>heap := (heap w)[r := derived_frame (round_col 2 pg) (round_col 2 pe)
                                      (round_col 2 pn) (heap w ! r)],
              logfile := logfile w @ [''Data transformation complete. Initiating Loading process'']\<rparr>"
    by simp
  show ?thesis
    apply (rule exI [of _ rates], rule exI [of _ usd], rule exI [of _ g], rule exI [of _ pg])
    apply (rule exI [of _ e], rule exI [of _ pe], rule exI [of _ i], rule exI [of _ pn])
    using rates usd g pg e pe i pn res by simp
qed

lemma derived_frame_props:
  assumes wf: "wf_frame df"
    and lg: "length gbp = length (rows df)"
    and le: "length eur = length (rows df)"
    and li: "length inr = length (rows df)"
  shows "wf_frame (derived_frame gbp eur inr df)"
    and "length (rows (derived_frame gbp eur inr df)) = length (rows df)"
    and "take (length (columns df)) (columns (derived_frame gbp eur inr df)) = columns df"
    and "''MC_GBP_Billion'' \<in> set (columns (derived_frame gbp eur inr df))"
    and "''MC_EUR_Billion'' \<in> set (columns (derived_frame gbp eur inr df))"
    and "''MC_INR_Billion'' \<in> set (columns (derived_frame gbp eur inr df))"
    and "get_column ''MC_GBP_Billion'' (derived_frame gbp eur inr df) = Inr gbp"
    and "get_column ''MC_EUR_Billion'' (derived_frame gbp eur inr df) = Inr eur"
    and "get_column ''MC_INR_Billion'' (derived_frame gbp eur inr df) = Inr inr"
    and "n \<noteq> ''MC_GBP_Billion'' \<Longrightarrow> n \<noteq> ''MC_EUR_Billion'' \<Longrightarrow> n \<noteq> ''MC_INR_Billion'' \<Longrightarrow>
         get_column n (derived_frame gbp eur inr df) = get_column n df"
proof -
  let ?d1 = "set_column ''MC_GBP_Billion'' gbp df"
  let ?d2 = "set_column ''MC_EUR_Billion'' eur ?d1"
  have wf1: "wf_frame ?d1" using wf by (rule wf_set_column)
  have wf2: "wf_frame ?d2" using wf1 by (rule wf_set_column)
  have l1: "length (rows ?d1) = length (rows df)" using lg by (rule length_rows_set_column)
  have le1: "length eur = length (rows ?d1)" using le l1 by simp
  have l2: "length (rows ?d2) = length (rows df)"
    using length_rows_set_column [OF le1] l1 by simp
  have li2: "length inr = length (rows ?d2)" using li l2 by simp
  show "wf_frame (derived_frame gbp eur inr df)"
    unfolding derived_frame_def using wf2 by (rule wf_set_column)
  show "length (rows (derived_frame gbp eur inr df)) = length (rows df)"
    unfolding derived_frame_def using length_rows_set_column [OF li2] l2 by simp
  show "take (length (columns df)) (columns (derived_frame gbp eur inr df)) = columns df"
    by (simp add: derived_frame_def columns_set_column)
  show "''MC_GBP_Billion'' \<in> set (columns (derived_frame gbp eur inr df))"
    by (simp add: derived_frame_def columns_set_column)
  show "''MC_EUR_Billion'' \<in> set (columns (derived_frame gbp eur inr df))"
    by (simp add: derived_frame_def columns_set_column)
  show "''MC_INR_Billion'' \<in> set (columns (derived_frame gbp eur inr df))"
    by (simp add: derived_frame_def columns_set_column)
  have g1: "get_column ''MC_GBP_Billion'' ?d1 = Inr gbp"
    using wf lg by (rule get_set_same)
  have g2: "get_column ''MC_GBP_Billion'' ?d2 = Inr gbp"
    using get_set_other [OF wf1 le1, of "''MC_GBP_Billion''" "''MC_EUR_Billion''"] g1 by simp
  show "get_column ''MC_GBP_Billion'' (derived_frame gbp eur inr df) = Inr gbp"
    unfolding derived_frame_def
    using get_set_other [OF wf2 li2, of "''MC_GBP_Billion''" "''MC_INR_Billion''"] g2 by simp
  have e2: "get_column ''MC_EUR_Billion'' ?d2 = Inr eur"
    using wf1 le1 by (rule get_set_same)
  show "get_column ''MC_EUR_Billion'' (derived_frame gbp eur inr df) = Inr eur"
    unfolding derived_frame_def
    using get_set_other [OF wf2 li2, of "''MC_EUR_Billion''" "''MC_INR_Billion''"] e2 by simp
  show "get_column ''MC_INR_Billion'' (derived_frame gbp eur inr df) = Inr inr"
    unfolding derived_frame_def using wf2 li2 by (rule get_set_same)
  show "get_column n (derived_frame gbp eur inr df) = get_column n df"
    if "n \<noteq> ''MC_GBP_Billion''" "n \<noteq> ''MC_EUR_Billion''" "n \<noteq> ''MC_INR_Billion''"
    unfolding derived_frame_def
    using get_set_other [OF wf2 li2 that(3)] get_set_other [OF wf1 le1 that(2)]
      get_set_other [OF wf lg that(1)] by simp
qed

text \<open>
  Claim C10. In the banks variant \<^verbatim>\<open>transform\<close> changes the frame it is given and
  returns that frame. When the call returns, its result is the position it was given;
  the frame there carries the three derived columns; the columns it had are still
  there, in their places, and every column other than the three derived ones holds
  the cells it held, row by row; the number of rows is the same; no other frame of
  the heap is touched. So the caller's extracted frame is the transformed frame.
\<close>

theorem transform_in_place:
  assumes ok: "transform env r csv w = (Inr r', w')"
    and r: "r < length (heap w)" and wf: "wf_frame (heap w ! r)"
  shows "r' = r
    \<and> length (heap w') = length (heap w)
    \<and> (\<forall>q. q < length (heap w) \<and> q \<noteq> r \<longrightarrow> heap w' ! q = heap w ! q)
    \<and> ''MC_GBP_Billion'' \<in> set (columns (heap w' ! r))
    \<and> ''MC_EUR_Billion'' \<in> set (columns (heap w' ! r))
    \<and> ''MC_INR_Billion'' \<in> set (columns (heap w' ! r))
    \<and> take (length (columns (heap w ! r))) (columns (heap w' ! r)) = columns (heap w ! r)
    \<and> length (rows (heap w' ! r)) = length (rows (heap w ! r))
    \<and> (\<forall>n. n \<noteq> ''MC_GBP_Billion'' \<and> n \<noteq> ''MC_EUR_Billion'' \<and> n \<noteq> ''MC_INR_Billion'' \<longrightarrow>
          get_column n (heap w' ! r) = get_column n (heap w ! r))"
proof -
  let ?df = "heap w ! r"
  from transform_Inr [OF ok r wf] obtain rates usd g pg e pe i pn where
    usd: "get_column ''MC_USD_Billion'' ?df = Inr usd"
    and pg: "times_col usd g = Inr pg" and pe: "times_col usd e = Inr pe"
    and pn: "times_col usd i = Inr pn" and same: "r' = r"
    and w': "w' = w\<lparr>heap := (heap w)[r := derived_frame (round_col 2 pg) (round_col 2 pe)
                                      (round_col 2 pn) ?df],
              logfile := logfile w @ [''Data transformation complete. Initiating Loading process'']\<rparr>"
    by blast
  let ?out = "derived_frame (round_col 2 pg) (round_col 2 pe) (round_col 2 pn) ?df"
  have len: "length usd = length (rows ?df)"
    using usd by (rule get_column_length)
  have lg: "length (round_col 2 pg) = length (rows ?df)"
    using times_col_length [OF pg] len by (simp add: round_col_def)
  have le: "length (round_col 2 pe) = length (rows ?df)"
    using times_col_length [OF pe] len by (simp add: round_col_def)
  have li: "length (round_col 2 pn) = length (rows ?df)"
    using times_col_length [OF pn] len by (simp add: round_col_def)
  note props = derived_frame_props [OF wf lg le li]
  have at: "heap w' ! r = ?out" using w' r by simp
  have others: "\<forall>q. q < length (heap w) \<and> q \<noteq> r \<longrightarrow> heap w' ! q = heap w ! q"
    using w' by simp
  have cols: "\<forall>n. n \<noteq> ''MC_GBP_Billion'' \<and> n \<noteq> ''MC_EUR_Billion'' \<and> n \<noteq> ''MC_INR_Billion'' \<longrightarrow>
          get_column n (heap w' ! r) = get_column n ?df"
    unfolding at using props(10) by blast
  have size: "length (heap w') = length (heap w)" using w' by simp
  show ?thesis
    unfolding at [symmetric]
    using same size others cols props(2-6) [unfolded at [symmetric]] by simp
qed

lemma sample_rates:
  "read_rates (sample_env doc) path =
     Inr [(Str (py ''INR''), Num 82.95), (Str (py ''GBP''), Num 0.8), (Str (py ''EUR''), Num 0.93)]"
  by (simp add: read_rates_def sample_env_def exchange_rates_def err_bind_def get_column_def dict_zip_def)

lemma transform_sample:
  "transform (sample_env doc) 0 EXCHANGE_CSV extracted_world =
     (Inr 0, extracted_world\<lparr>heap := [transformed_frame],
        logfile := [''Data transformation complete. Initiating Loading process'']\<rparr>)"
  by (simp add: transform_def seq_def lift_def sample_rates derive_column_def frame_col_def
      extracted_world_def extracted_frame_def empty_world_def get_column_def dict_get_def py_def
      err_bind_def assign_column_def set_column_def round_col_def round_to_def rint_def Let_def
      log_progress_def ret_def transformed_frame_def)

theorem transform_in_place_witness:
  "transform (sample_env []) 0 EXCHANGE_CSV extracted_world =
     (Inr 0, extracted_world\<lparr>heap := [transformed_frame],
        logfile := [''Data transformation complete. Initiating Loading process'']\<rparr>)
   \<and> 0 < length (heap extracted_world) \<and> wf_frame (heap extracted_world ! 0)
   \<and> ''MC_GBP_Billion'' \<in> set (columns transformed_frame)
   \<and> take (length (columns (heap extracted_world ! 0))) (columns transformed_frame) =
       columns (heap extracted_world ! 0)
   \<and> get_column ''Name'' transformed_frame = get_column ''Name'' (heap extracted_world ! 0)"
proof -
  have h1: "0 < length (heap extracted_world)"
    by (simp add: extracted_world_def)
  have h2: "wf_frame (heap extracted_world ! 0)"
    by (simp add: extracted_world_def extracted_frame_def wf_frame_def)
  have h3: "heap (extracted_world\<lparr>heap := [transformed_frame],
        logfile := [''Data transformation complete. Initiating Loading process'']\<rparr>) ! 0 = transformed_frame"
    by simp
  note run = transform_sample [of "[]"]
  note T = transform_in_place [OF run h1 h2, unfolded h3]
  note T3 = T [THEN conjunct2, THEN conjunct2, THEN conjunct2]
  note T6 = T3 [THEN conjunct2, THEN conjunct2, THEN conjunct2]
  have t1: "''MC_GBP_Billion'' \<in> set (columns transformed_frame)"
    by (rule T3 [THEN conjunct1])
  have t2: "take (length (columns (heap extracted_world ! 0))) (columns transformed_frame) =
       columns (heap extracted_world ! 0)"
    by (rule T6 [THEN conjunct1])
  have ne: "''Name'' \<noteq> ''MC_GBP_Billion'' \<and> ''Name'' \<noteq> ''MC_EUR_Billion'' \<and> ''Name'' \<noteq> ''MC_INR_Billion''"
    by simp
  have t3: "get_column ''Name'' transformed_frame = get_column ''Name'' (heap extracted_world ! 0)"
    by (rule T6 [THEN conjunct2, THEN conjunct2, THEN spec, THEN mp, OF ne])
  show ?thesis
    by (intro conjI run h1 h2 t1 t2 t3)
qed

end
